theory Spec2Isabelle
  imports Complex_Main "HOL-Library.Monad_Syntax"
begin

section \<open>JavaScript numbers\<close>

text \<open>
  The coordinates, angles and scales of \<^verbatim>\<open>elements.js\<close> are JavaScript numbers. They are
  modelled as exact reals together with the three special values that the code can produce
  and test for: the two infinities and NaN. Arithmetic on finite values is exact (no
  rounding, no overflow; the rounding of doubles is added for \<^verbatim>\<open>getAngle\<close> in a section
  of its own); zero carries no sign, and a finite value divided by zero gives the
  infinity of the dividend's sign, as a division by \<^verbatim>\<open>+0\<close> does (every zero divisor in this
  file is a result of \<^verbatim>\<open>Math.hypot\<close>). The value \<^verbatim>\<open>undefined\<close> of an absent field is
  \<open>None\<close>, and reads as NaN where the code does arithmetic on it.
\<close>

datatype number = Fin real | PInf | NInf | NaN

instantiation number :: "{uminus, plus, minus, times, inverse, ord}"
begin

fun uminus_number :: "number \<Rightarrow> number" where
  "uminus_number (Fin a) = Fin (- a)"
| "uminus_number PInf = NInf"
| "uminus_number NInf = PInf"
| "uminus_number NaN = NaN"

fun plus_number :: "number \<Rightarrow> number \<Rightarrow> number" where
  "plus_number (Fin a) (Fin b) = Fin (a + b)"
| "plus_number NaN _ = NaN"
| "plus_number _ NaN = NaN"
| "plus_number PInf NInf = NaN"
| "plus_number NInf PInf = NaN"
| "plus_number PInf _ = PInf"
| "plus_number _ PInf = PInf"
| "plus_number NInf _ = NInf"
| "plus_number _ NInf = NInf"

definition minus_number :: "number \<Rightarrow> number \<Rightarrow> number" where
  "minus_number a b = a + (- b)"

fun times_number :: "number \<Rightarrow> number \<Rightarrow> number" where
  "times_number (Fin a) (Fin b) = Fin (a * b)"
| "times_number NaN _ = NaN"
| "times_number _ NaN = NaN"
| "times_number PInf (Fin b) = (if b = 0 then NaN else if 0 < b then PInf else NInf)"
| "times_number NInf (Fin b) = (if b = 0 then NaN else if 0 < b then NInf else PInf)"
| "times_number (Fin a) PInf = (if a = 0 then NaN else if 0 < a then PInf else NInf)"
| "times_number (Fin a) NInf = (if a = 0 then NaN else if 0 < a then NInf else PInf)"
| "times_number PInf PInf = PInf"
| "times_number NInf NInf = PInf"
| "times_number PInf NInf = NInf"
| "times_number NInf PInf = NInf"

fun divide_number :: "number \<Rightarrow> number \<Rightarrow> number" where
  "divide_number (Fin a) (Fin b) =
     (if b \<noteq> 0 then Fin (a / b) else if a = 0 then NaN else if 0 < a then PInf else NInf)"
| "divide_number NaN _ = NaN"
| "divide_number _ NaN = NaN"
| "divide_number (Fin a) _ = Fin 0"
| "divide_number PInf (Fin b) = (if 0 \<le> b then PInf else NInf)"
| "divide_number NInf (Fin b) = (if 0 \<le> b then NInf else PInf)"
| "divide_number _ _ = NaN"

fun inverse_number :: "number \<Rightarrow> number" where
  "inverse_number (Fin b) = (if b \<noteq> 0 then Fin (1 / b) else PInf)"
| "inverse_number NaN = NaN"
| "inverse_number _ = Fin 0"

fun less_number :: "number \<Rightarrow> number \<Rightarrow> bool" where
  "less_number (Fin a) (Fin b) = (a < b)"
| "less_number NInf (Fin b) = True"
| "less_number NInf PInf = True"
| "less_number (Fin a) PInf = True"
| "less_number _ _ = False"

fun less_eq_number :: "number \<Rightarrow> number \<Rightarrow> bool" where
  "less_eq_number (Fin a) (Fin b) = (a \<le> b)"
| "less_eq_number NaN _ = False"
| "less_eq_number _ NaN = False"
| "less_eq_number NInf _ = True"
| "less_eq_number _ PInf = True"
| "less_eq_number _ _ = False"

instance ..

end

text \<open>The operator \<^verbatim>\<open>==\<close> on two numbers (\<^verbatim>\<open>!=\<close> is its negation): NaN equals nothing.\<close>

definition js_eq :: "number \<Rightarrow> number \<Rightarrow> bool" where
  "js_eq a b = (a \<noteq> NaN \<and> b \<noteq> NaN \<and> a = b)"

text \<open>Truthiness of a number, and \<^verbatim>\<open>a || b\<close> on numbers.\<close>

definition truthy :: "number \<Rightarrow> bool" where
  "truthy a = (a \<noteq> Fin 0 \<and> a \<noteq> NaN)"

definition js_or :: "number \<Rightarrow> number \<Rightarrow> number" where
  "js_or a b = (if truthy a then a else b)"

text \<open>A numeric read of a field that may be absent.\<close>

definition num :: "number option \<Rightarrow> number" where
  "num v = (case v of None \<Rightarrow> NaN | Some a \<Rightarrow> a)"

definition Math_PI :: number where
  "Math_PI = Fin pi"

fun Math_abs :: "number \<Rightarrow> number" where
  "Math_abs (Fin a) = Fin \<bar>a\<bar>"
| "Math_abs PInf = PInf"
| "Math_abs NInf = PInf"
| "Math_abs NaN = NaN"

text \<open>\<^verbatim>\<open>Math.hypot\<close>: an infinite argument gives \<^verbatim>\<open>Infinity\<close> even beside a NaN.\<close>

fun Math_hypot :: "number \<Rightarrow> number \<Rightarrow> number" where
  "Math_hypot (Fin a) (Fin b) = Fin (sqrt (a * a + b * b))"
| "Math_hypot PInf _ = PInf"
| "Math_hypot NInf _ = PInf"
| "Math_hypot _ PInf = PInf"
| "Math_hypot _ NInf = PInf"
| "Math_hypot _ _ = NaN"

definition Math_max :: "number \<Rightarrow> number \<Rightarrow> number" where
  "Math_max a b = (if a = NaN \<or> b = NaN then NaN else if a < b then b else a)"

definition Math_min :: "number \<Rightarrow> number \<Rightarrow> number" where
  "Math_min a b = (if a = NaN \<or> b = NaN then NaN else if b < a then b else a)"

fun Math_acos :: "number \<Rightarrow> number" where
  "Math_acos (Fin a) = (if - 1 \<le> a \<and> a \<le> 1 then Fin (arccos a) else NaN)"
| "Math_acos _ = NaN"

fun Math_atan :: "number \<Rightarrow> number" where
  "Math_atan (Fin a) = Fin (arctan a)"
| "Math_atan PInf = Fin (pi / 2)"
| "Math_atan NInf = Fin (- (pi / 2))"
| "Math_atan NaN = NaN"

fun Math_sin :: "number \<Rightarrow> number" where
  "Math_sin (Fin a) = Fin (sin a)"
| "Math_sin _ = NaN"

fun Math_cos :: "number \<Rightarrow> number" where
  "Math_cos (Fin a) = Fin (cos a)"
| "Math_cos _ = NaN"

text \<open>\<^verbatim>\<open>Math.round\<close> rounds to the nearest integer, a half towards plus infinity.\<close>

fun Math_round :: "number \<Rightarrow> number" where
  "Math_round (Fin a) = Fin (of_int \<lfloor>a + 1 / 2\<rfloor>)"
| "Math_round a = a"

section \<open>Constants\<close>

datatype Shapes = NONE | LINE | ELLIPSE | RECTANGLE | TEXT | POLYGON | POLYLINE

datatype Transformations = TRANSLATION | ROTATION | SCALE_PRESERVE | STRETCH | REFLECTION | INVERSION

definition RADIAN :: number where
  "RADIAN = Fin 180 / Math_PI"

definition REFLECTION_TOLERANCE :: number where
  "REFLECTION_TOLERANCE = Fin 5"

definition STRETCH_TOLERANCE :: number where
  "STRETCH_TOLERANCE = Math_PI / Fin 8"

definition MIN_REFLECTION_LINE_LENGTH :: number where
  "MIN_REFLECTION_LINE_LENGTH = Fin 10"

definition MIN_TRANSLATION_DISTANCE :: number where
  "MIN_TRANSLATION_DISTANCE = Fin 1"

definition MIN_ROTATION_ANGLE :: number where
  "MIN_ROTATION_ANGLE = Math_PI / Fin 1000"

definition MIN_DRAWING_SIZE :: number where
  "MIN_DRAWING_SIZE = Fin 3"

section \<open>Geometric utilities\<close>

text \<open>A point is the two-element array \<^verbatim>\<open>[x, y]\<close>.\<close>

type_synonym point = "number \<times> number"

definition getNearness :: "point \<Rightarrow> point \<Rightarrow> number \<Rightarrow> bool" where
  "getNearness pointA pointB distance =
     (Math_hypot (fst pointB - fst pointA) (snd pointB - snd pointA) < distance)"

text \<open>
  \<^verbatim>\<open>reduce\<close> without an initial value starts from the first point and throws a TypeError
  (\<open>None\<close>) on an empty array.
\<close>

definition getNaiveCenter :: "point list \<Rightarrow> point option" where
  "getNaiveCenter points =
     (case points of
        [] \<Rightarrow> None
      | p # ps \<Rightarrow>
          (let accumulator =
                 foldl (\<lambda>accumulator point.
                          (fst accumulator + fst point, snd accumulator + snd point)) p ps
           in Some (fst accumulator / Fin (real (length points)),
                    snd accumulator / Fin (real (length points)))))"

text \<open>
  The loop \<^verbatim>\<open>for (let i = 0; i <= n-1; i++)\<close> of \<^verbatim>\<open>getCentroid\<close>, on the sums
  \<open>(sA, sX, sY)\<close>.
\<close>

function centroidLoop ::
  "point list \<Rightarrow> nat \<Rightarrow> nat \<Rightarrow> number \<times> number \<times> number \<Rightarrow> number \<times> number \<times> number" where
  "centroidLoop points n i (sA, sX, sY) =
     (if i + 1 \<le> n then
        (let a = fst (points ! i) * snd (points ! (i + 1))
                 - fst (points ! (i + 1)) * snd (points ! i)
         in centroidLoop points n (i + 1)
              (sA + a,
               sX + (fst (points ! i) + fst (points ! (i + 1))) * a,
               sY + (snd (points ! i) + snd (points ! (i + 1))) * a))
      else (sA, sX, sY))"
  by pat_completeness auto
termination
  by (relation "measure (\<lambda>(points, n, i, s). n - i)") auto

declare centroidLoop.simps [simp del]

text \<open>
  \<^verbatim>\<open>getCentroid\<close> works on the caller's array: it pushes the first point, sums over the
  closed polygon and pops again. The model returns the center together with the array as the
  call leaves it. On an empty array the loop does not run and \<^verbatim>\<open>getNaiveCenter\<close> throws.
\<close>

definition getCentroid :: "point list \<Rightarrow> (point \<times> point list) option" where
  "getCentroid points0 =
     (case points0 of
        [] \<Rightarrow> None
      | p0 # _ \<Rightarrow>
          (let n = length points0;
               points = points0 @ [p0];
               (sA, sX, sY) = centroidLoop points n 0 (Fin 0, Fin 0, Fin 0);
               points = butlast points
           in if js_eq sA (Fin 0)
              then do { c \<leftarrow> getNaiveCenter points; Some (c, points) }
              else Some ((sX / (Fin 3 * sA), sY / (Fin 3 * sA)), points)))"

text \<open>The general cubic B\'ezier coordinate, as the comment above \<^verbatim>\<open>getCurveCenter\<close> gives it.\<close>

definition cubicBezierCoord :: "real \<Rightarrow> real \<Rightarrow> real \<Rightarrow> real \<Rightarrow> real \<Rightarrow> real" where
  "cubicBezierCoord x0 x1 x2 x3 t =
     (1 - t) ^ 3 * x0 + 3 * t * (1 - t) ^ 2 * x1 + 3 * t ^ 2 * (1 - t) * x2 + t ^ 3 * x3"

definition cubicBezierPoint ::
  "real \<times> real \<Rightarrow> real \<times> real \<Rightarrow> real \<times> real \<Rightarrow> real \<times> real \<Rightarrow> real \<Rightarrow> point" where
  "cubicBezierPoint p0 p1 p2 p3 t =
     (Fin (cubicBezierCoord (fst p0) (fst p1) (fst p2) (fst p3) t),
      Fin (cubicBezierCoord (snd p0) (snd p1) (snd p2) (snd p3) t))"

definition getCurveCenter :: "point \<Rightarrow> point \<Rightarrow> point \<Rightarrow> point \<Rightarrow> point" where
  "getCurveCenter p0 p1 p2 p3 =
     (if js_eq (fst p0) (fst p1) \<and> js_eq (snd p0) (snd p1)
      then ((fst p1 + Fin 6 * fst p1 + Fin 12 * fst p2 + Fin 8 * fst p3) / Fin 27,
            (snd p1 + Fin 6 * snd p1 + Fin 12 * snd p2 + Fin 8 * snd p3) / Fin 27)
      else ((fst p0 + Fin 3 * fst p1 + Fin 3 * fst p2 + fst p3) / Fin 8,
            (snd p0 + Fin 3 * snd p1 + Fin 3 * snd p2 + snd p3) / Fin 8))"

definition getAngle ::
  "number \<Rightarrow> number \<Rightarrow> number \<Rightarrow> number \<Rightarrow> number \<Rightarrow> number \<Rightarrow> number" where
  "getAngle xO yO xA yA xB yB =
     (let cos = ((xA - xO) * (xB - xO) + (yA - yO) * (yB - yO))
                / (Math_hypot (xA - xO) (yA - yO) * Math_hypot (xB - xO) (yB - yO));
          cos = Math_min (Math_max (- Fin 1) cos) (Fin 1);
          angle = Math_acos cos
      in if js_eq xA xO
         then (if xO < xB then - angle else angle)
         else (let a = (yA - yO) / (xA - xO);
                   b = yA - a * xA;
                   angle = (if yB < a * xB + b then - angle else angle);
                   angle = (if xA < xO then - angle else angle)
               in angle))"

text \<open>A point with finite coordinates.\<close>

definition pt :: "real \<times> real \<Rightarrow> point" where
  "pt p = (Fin (fst p), Fin (snd p))"

section \<open>Pango matrices\<close>

text \<open>
  \<^verbatim>\<open>Pango.Matrix\<close> belongs to a library outside the repository. It is the affine map
  \<open>(x, y) \<mapsto> (xx x + xy y + x0, yx x + yy y + y0)\<close>; \<^verbatim>\<open>translate\<close>, \<^verbatim>\<open>scale\<close> and
  \<^verbatim>\<open>rotate\<close> (in degrees) compose a map that is applied before the present one.
\<close>

record matrix =
  xx :: number
  xy :: number
  yx :: number
  yy :: number
  x0 :: number
  y0 :: number

definition matrix_translate :: "matrix \<Rightarrow> number \<Rightarrow> number \<Rightarrow> matrix" where
  "matrix_translate m tx ty =
     m\<lparr>x0 := xx m * tx + xy m * ty + x0 m, y0 := yx m * tx + yy m * ty + y0 m\<rparr>"

definition matrix_scale :: "matrix \<Rightarrow> number \<Rightarrow> number \<Rightarrow> matrix" where
  "matrix_scale m sx sy =
     m\<lparr>xx := xx m * sx, xy := xy m * sy, yx := yx m * sx, yy := yy m * sy\<rparr>"

definition matrix_rotate :: "matrix \<Rightarrow> number \<Rightarrow> matrix" where
  "matrix_rotate m degrees =
     (let r = degrees * (Math_PI / Fin 180); s = Math_sin r; c = Math_cos r
      in m\<lparr>xx := xx m * c + xy m * (- s), xy := xx m * s + xy m * c,
            yx := yx m * c + yy m * (- s), yy := yx m * s + yy m * c,
            x0 := xx m * Fin 0 + xy m * Fin 0 + x0 m,
            y0 := yx m * Fin 0 + yy m * Fin 0 + y0 m\<rparr>)"

definition matrix_transform_point :: "matrix \<Rightarrow> number \<Rightarrow> number \<Rightarrow> point" where
  "matrix_transform_point m x y = (xx m * x + xy m * y + x0 m, yx m * x + yy m * y + y0 m)"

section \<open>Drawing elements\<close>

text \<open>
  A transformation is a plain object whose fields depend on its type and on whether its
  gesture is in progress; an absent field is \<open>None\<close>.
\<close>

record transformation =
  type :: Transformations
  startX :: "number option"
  startY :: "number option"
  endX :: "number option"
  endY :: "number option"
  slideX :: "number option"
  slideY :: "number option"
  scaleX :: "number option"
  scaleY :: "number option"
  angle :: "number option"
  elementTransformedCenter :: "point option"

text \<open>The object literal \<^verbatim>\<open>{ type: t }\<close>.\<close>

definition newTransformation :: "Transformations \<Rightarrow> transformation" where
  "newTransformation t =
     \<lparr>type = t, startX = None, startY = None, endX = None, endY = None,
      slideX = None, slideY = None, scaleX = None, scaleY = None, angle = None,
      elementTransformedCenter = None\<rparr>"

record line_style =
  lineCap :: nat
  lineJoin :: nat
  lineWidth :: number

record dash_style =
  active :: bool
  array :: "number list"
  offset :: number

record font_description =
  family :: "string option"
  weight :: "number option"
  style :: "nat option"
  stretch :: "nat option"
  variant :: "nat option"

text \<open>The combined \<^verbatim>\<open>transform\<close> field of records written by old versions.\<close>

record legacy_transform =
  legacy_center :: "point option"
  legacy_angle :: "number option"
  legacy_startAngle :: "number option"
  legacy_ratio :: "number option"

text \<open>
  The element. \<open>showSymmetryElement\<close>, \<open>textWidth\<close> and the cache \<open>originalCenter\<close>
  (\<^verbatim>\<open>_originalCenter\<close>) are set by methods only; a new element has none of them.
\<close>

record element =
  shape :: Shapes
  color :: string
  line :: line_style
  dash :: dash_style
  fill :: bool
  fillRule :: nat
  eraser :: bool
  transformations :: "transformation list"
  "text" :: "string option"
  lineIndex :: "number option"
  textRightAligned :: bool
  font :: "font_description option"
  points :: "point list"
  showSymmetryElement :: bool
  textWidth :: "number option"
  originalCenter :: "point option"

text \<open>The persisted record: what \<^verbatim>\<open>toJSON\<close> returns and the constructor takes.\<close>

record params =
  params_shape :: Shapes
  params_color :: string
  params_line :: line_style
  params_dash :: dash_style
  params_fill :: bool
  params_fillRule :: "nat option"
  params_eraser :: bool
  params_transformations :: "transformation list option"
  params_text :: "string option"
  params_lineIndex :: "number option"
  params_textRightAligned :: bool
  params_font :: "font_description option"
  params_points :: "point list"
  params_transform :: "legacy_transform option"

definition Cairo_FillRule_WINDING :: nat where
  "Cairo_FillRule_WINDING = 0"

text \<open>The constructor \<^verbatim>\<open>_init\<close>.\<close>

definition init :: "params \<Rightarrow> element" where
  "init p =
     (let this = \<lparr>shape = params_shape p, color = params_color p, line = params_line p,
                  dash = params_dash p, fill = params_fill p,
                  fillRule = (case params_fillRule p of
                                None \<Rightarrow> Cairo_FillRule_WINDING | Some r \<Rightarrow> r),
                  eraser = params_eraser p,
                  transformations = (case params_transformations p of
                                       None \<Rightarrow> [] | Some ts \<Rightarrow> ts),
                  text = params_text p, lineIndex = params_lineIndex p,
                  textRightAligned = params_textRightAligned p, font = params_font p,
                  points = params_points p, showSymmetryElement = False,
                  textWidth = None, originalCenter = None\<rparr>;
          this = (if params_shape p = TEXT then
                    (case params_font p of
                       None \<Rightarrow> this
                     | Some f \<Rightarrow>
                         if weight f = Some (Fin 0) then this\<lparr>font := Some (f\<lparr>weight := Some (Fin 400)\<rparr>)\<rparr>
                         else if weight f = Some (Fin 1) then this\<lparr>font := Some (f\<lparr>weight := Some (Fin 700)\<rparr>)\<rparr>
                         else this)
                  else this);
          this = (case params_transform p of
                    None \<Rightarrow> this
                  | Some tr \<Rightarrow>
                      if legacy_center tr \<noteq> None then
                        (let angle = js_or (num (legacy_angle tr)) (Fin 0)
                                     + js_or (num (legacy_startAngle tr)) (Fin 0)
                         in if truthy angle
                            then this\<lparr>transformations :=
                                   transformations this @ [(newTransformation ROTATION)\<lparr>angle := Some angle\<rparr>]\<rparr>
                            else this)
                      else this);
          this = (case params_transform p of
                    None \<Rightarrow> this
                  | Some tr \<Rightarrow>
                      if params_shape p = ELLIPSE \<and> truthy (num (legacy_ratio tr))
                         \<and> \<not> js_eq (num (legacy_ratio tr)) (Fin 1) \<and> 2 \<le> length (params_points p)
                      then (let ratio = num (legacy_ratio tr);
                                p0 = params_points p ! 0; p1 = params_points p ! 1
                            in this\<lparr>points := points this
                                 @ [(ratio * (fst p1 - fst p0) + fst p0,
                                     ratio * (snd p1 - snd p0) + snd p0)]\<rparr>)
                      else this)
      in this)"

definition toJSON :: "element \<Rightarrow> params" where
  "toJSON this =
     \<lparr>params_shape = shape this, params_color = color this, params_line = line this,
      params_dash = dash this, params_fill = fill this, params_fillRule = Some (fillRule this),
      params_eraser = eraser this, params_transformations = Some (transformations this),
      params_text = text this, params_lineIndex = lineIndex this,
      params_textRightAligned = textRightAligned this, params_font = font this,
      params_points =
        map (\<lambda>point. (Math_round (fst point * Fin 100) / Fin 100,
                       Math_round (snd point * Fin 100) / Fin 100)) (points this),
      params_transform = None\<rparr>"

definition lastTransformation :: "element \<Rightarrow> transformation option" where
  "lastTransformation this =
     (if length (transformations this) = 0 then None
      else Some (transformations this ! (length (transformations this) - 1)))"

text \<open>
  An assignment \<^verbatim>\<open>a[i] = v\<close>. It replaces an element or, at \<open>i = length a\<close>, appends one.
  No call below has \<open>i > length a\<close>, where JavaScript would leave holes.
\<close>

definition arraySet :: "'a list \<Rightarrow> nat \<Rightarrow> 'a \<Rightarrow> 'a list" where
  "arraySet a i v = (if i < length a then a[i := v] else a @ [v])"

text \<open>\<^verbatim>\<open>_smooth\<close>; reading a point beyond the array throws a TypeError.\<close>

definition smooth :: "nat \<Rightarrow> element \<Rightarrow> element option" where
  "smooth i this =
     (if i < 2 then Some this
      else if length (points this) \<le> i then None
      else Some (this\<lparr>points := arraySet (points this) (i - 1)
                  ((fst (points this ! (i - 2)) + fst (points this ! i)) / Fin 2,
                   (snd (points this ! (i - 2)) + snd (points this ! i)) / Fin 2)\<rparr>))"

definition getLineOffset :: "element \<Rightarrow> number" where
  "getLineOffset this =
     js_or (num (lineIndex this)) (Fin 0)
     * Math_abs (snd (points this ! 1) - snd (points this ! 0))"

text \<open>
  \<^verbatim>\<open>_getOriginalCenter\<close> returns the center and the element as the call leaves it: the cache
  is filled, and \<^verbatim>\<open>getCentroid\<close> has worked on the point array.
\<close>

definition getOriginalCenter :: "element \<Rightarrow> (point \<times> element) option" where
  "getOriginalCenter this =
     (case originalCenter this of
        Some c \<Rightarrow> Some (c, this)
      | None \<Rightarrow>
          (let points = points this in
           if shape this = ELLIPSE then
             (if length points < 1 then None
              else Some (points ! 0, this\<lparr>originalCenter := Some (points ! 0)\<rparr>))
           else if shape this = LINE \<and> length points = 4 then
             (let c = getCurveCenter (points ! 0) (points ! 1) (points ! 2) (points ! 3)
              in Some (c, this\<lparr>originalCenter := Some c\<rparr>))
           else if shape this = LINE \<and> length points = 3 then
             (let c = getCurveCenter (points ! 0) (points ! 0) (points ! 1) (points ! 2)
              in Some (c, this\<lparr>originalCenter := Some c\<rparr>))
           else if shape this = TEXT \<and> truthy (num (textWidth this)) then
             (if length points < 2 then None
              else (let c = (fst (points ! 1),
                             Math_max (snd (points ! 0)) (snd (points ! 1)) - getLineOffset this)
                    in Some (c, this\<lparr>originalCenter := Some c\<rparr>)))
           else if 3 \<le> length points then
             do { (c, points) \<leftarrow> getCentroid points;
                  Some (c, this\<lparr>points := points, originalCenter := Some c\<rparr>) }
           else
             do { c \<leftarrow> getNaiveCenter points;
                  Some (c, this\<lparr>originalCenter := Some c\<rparr>) }))"

text \<open>One step of the \<^verbatim>\<open>forEach\<close> in \<^verbatim>\<open>_getTransformedCenter\<close>.\<close>

definition centerStep :: "matrix \<Rightarrow> transformation \<Rightarrow> matrix" where
  "centerStep m transformation =
     (if type transformation = TRANSLATION then
        matrix_translate m (num (slideX transformation)) (num (slideY transformation))
      else if type transformation = ROTATION then m
      else if type transformation = SCALE_PRESERVE \<or> type transformation = STRETCH then m
      else
        (let m = matrix_translate m (num (slideX transformation)) (num (slideY transformation));
             m = matrix_rotate m (- num (angle transformation) * RADIAN);
             m = matrix_scale m (num (scaleX transformation)) (num (scaleY transformation));
             m = matrix_rotate m (num (angle transformation) * RADIAN);
             m = matrix_translate m (- num (slideX transformation)) (- num (slideY transformation))
         in m))"

text \<open>
  \<^verbatim>\<open>_getTransformedCenter\<close>. The records of a list are distinct objects, so
  \<^verbatim>\<open>indexOf\<close> finds the record at its own position, and the model takes that position
  \<open>i\<close> in place of the record. The center is cached in the record.
\<close>

definition getTransformedCenter :: "element \<Rightarrow> nat \<Rightarrow> (point \<times> element) option" where
  "getTransformedCenter this i =
     (case elementTransformedCenter (transformations this ! i) of
        Some c \<Rightarrow> Some (c, this)
      | None \<Rightarrow>
          (let m = foldl centerStep
                     \<lparr>xx = Fin 1, xy = Fin 0, yx = Fin 0, yy = Fin 1, x0 = Fin 0, y0 = Fin 0\<rparr>
                     (rev (take i (transformations this)))
           in do { (originalCenter, this) \<leftarrow> getOriginalCenter this;
                   let c = matrix_transform_point m (fst originalCenter) (snd originalCenter);
                   Some (c, this\<lparr>transformations := (transformations this)
                               [i := (transformations this ! i)\<lparr>elementTransformedCenter := Some c\<rparr>]\<rparr>) }))"

section \<open>Building the points\<close>

definition addPoint :: "element \<Rightarrow> element option" where
  "addPoint this =
     (let points = points this in
      if shape this = POLYGON \<or> shape this = POLYLINE then
        (if length points < 2 then None
         else (let lastPoint = points ! (length points - 1);
                   secondToLastPoint = points ! (length points - 2)
               in if \<not> getNearness secondToLastPoint lastPoint MIN_DRAWING_SIZE
                  then Some (this\<lparr>points := points @ [lastPoint]\<rparr>)
                  else Some this))
      else if shape this = LINE then
        (if length points = 2 then Some (this\<lparr>points := arraySet points 2 (points ! 1)\<rparr>)
         else if length points = 3
         then (let points = arraySet points 3 (points ! 2);
                   points = arraySet points 2 (points ! 1)
               in Some (this\<lparr>points := points\<rparr>))
         else Some this)
      else Some this)"

definition startDrawing :: "number \<Rightarrow> number \<Rightarrow> element \<Rightarrow> element" where
  "startDrawing startX' startY' this =
     (let this = this\<lparr>points := points this @ [(startX', startY')]\<rparr>
      in if shape this = POLYGON \<or> shape this = POLYLINE
         then this\<lparr>points := points this @ [(startX', startY')]\<rparr>
         else this)"

text \<open>
  \<^verbatim>\<open>updateDrawing\<close>. With no point yet, the first line reads a field of
  \<^verbatim>\<open>undefined\<close> and throws.
\<close>

definition updateDrawing :: "number \<Rightarrow> number \<Rightarrow> bool \<Rightarrow> element \<Rightarrow> element option" where
  "updateDrawing x y transform this =
     (let points = points this in
      if length points = 0 then None
      else if js_eq x (fst (points ! (length points - 1)))
              \<and> js_eq y (snd (points ! (length points - 1))) then Some this
      else
        (let transform = (transform \<or> 1 \<le> length (transformations this)) in
         if shape this = NONE then
           (let this = this\<lparr>points := points @ [(x, y)]\<rparr>
            in if transform then smooth (length (Spec2Isabelle.points this) - 1) this
               else Some this)
         else if (shape this = RECTANGLE \<or> shape this = POLYGON \<or> shape this = POLYLINE)
                 \<and> transform then
           (if length points < 2 then Some this
            else do { (center, this) \<leftarrow> getOriginalCenter this;
                      let points = Spec2Isabelle.points this;
                      Some (this\<lparr>transformations := arraySet (transformations this) 0
                              ((newTransformation ROTATION)
                                 \<lparr>angle := Some (getAngle (fst center) (snd center)
                                                   (fst (points ! (length points - 1)))
                                                   (snd (points ! (length points - 1))) x y)\<rparr>)\<rparr>) })
         else if shape this = ELLIPSE \<and> transform then
           (if length points < 2 then Some this
            else do { (center, this) \<leftarrow> getOriginalCenter (this\<lparr>points := arraySet points 2 (x, y)\<rparr>);
                      Some (this\<lparr>transformations := arraySet (transformations this) 0
                              ((newTransformation ROTATION)
                                 \<lparr>angle := Some (getAngle (fst center) (snd center)
                                                   (fst center + Fin 1) (snd center) x y)\<rparr>)\<rparr>) })
         else if shape this = POLYGON \<or> shape this = POLYLINE then
           Some (this\<lparr>points := arraySet points (length points - 1) (x, y)\<rparr>)
         else if shape this = TEXT \<and> transform then
           (if length points < 2 then Some this
            else (let slideX = x - fst (points ! 1); slideY = y - snd (points ! 1);
                      points = arraySet points 0 (fst (points ! 0) + slideX, snd (points ! 0) + slideY);
                      points = arraySet points 1 (x, y)
                  in Some (this\<lparr>points := points\<rparr>)))
         else Some (this\<lparr>points := arraySet points 1 (x, y)\<rparr>)))"

definition stopDrawing :: "element \<Rightarrow> element" where
  "stopDrawing this =
     (let this =
        (if shape this \<noteq> NONE \<and> 2 \<le> length (points this) then
           (let lastPoint = points this ! (length (points this) - 1);
                secondToLastPoint = points this ! (length (points this) - 2)
            in if getNearness secondToLastPoint lastPoint MIN_DRAWING_SIZE
               then this\<lparr>points := butlast (points this)\<rparr>
               else this)
         else this)
      in (case transformations this of
            [] \<Rightarrow> this
          | t # ts \<Rightarrow>
              if type t = ROTATION \<and> Math_abs (num (angle t)) < MIN_ROTATION_ANGLE
              then this\<lparr>transformations := ts\<rparr>
              else this))"

section \<open>Building a transformation\<close>

definition startTransformation ::
  "number \<Rightarrow> number \<Rightarrow> Transformations \<Rightarrow> element \<Rightarrow> element" where
  "startTransformation startX' startY' type' this =
     (let t = (newTransformation type')\<lparr>startX := Some startX', startY := Some startY'\<rparr>;
          t = (if type' = TRANSLATION then
                 t\<lparr>slideX := Some (Fin 0), slideY := Some (Fin 0)\<rparr>
               else if type' = ROTATION then
                 t\<lparr>angle := Some (Fin 0)\<rparr>
               else if type' = SCALE_PRESERVE \<or> type' = STRETCH then
                 t\<lparr>scaleX := Some (Fin 1), scaleY := Some (Fin 1), angle := Some (Fin 0)\<rparr>
               else if type' = REFLECTION then
                 t\<lparr>endX := Some startX', endY := Some startY',
                   scaleX := Some (Fin 1), scaleY := Some (Fin 1),
                   slideX := Some (Fin 0), slideY := Some (Fin 0), angle := Some (Fin 0)\<rparr>
               else
                 t\<lparr>endX := Some startX', endY := Some startY',
                   scaleX := Some (- Fin 1), scaleY := Some (- Fin 1),
                   slideX := Some startX', slideY := Some startY',
                   angle := Some (Math_PI + Math_atan (startY' / js_or startX' (Fin 1)))\<rparr>);
          this = this\<lparr>transformations := transformations this @ [t]\<rparr>
      in if type' = REFLECTION \<or> type' = INVERSION
         then this\<lparr>showSymmetryElement := True\<rparr>
         else this)"

text \<open>The record at position \<open>i\<close> is replaced by its updated state.\<close>

definition setTransformation :: "element \<Rightarrow> nat \<Rightarrow> transformation \<Rightarrow> element" where
  "setTransformation this i t = this\<lparr>transformations := (transformations this)[i := t]\<rparr>"

text \<open>The scale of a ScalePreserve or Stretch update.\<close>

definition updateScale :: "point \<Rightarrow> transformation \<Rightarrow> number \<Rightarrow> number \<Rightarrow> number" where
  "updateScale center transformation x y =
     js_or (Math_hypot (x - fst center) (y - snd center)
            / Math_hypot (num (startX transformation) - fst center)
                         (num (startY transformation) - snd center)) (Fin 1)"

text \<open>The Reflection branch of \<^verbatim>\<open>updateTransformation\<close>.\<close>

definition updateReflection :: "transformation \<Rightarrow> number \<Rightarrow> number \<Rightarrow> transformation" where
  "updateReflection transformation0 x y =
     (let transformation = transformation0\<lparr>endX := Some x, endY := Some y\<rparr>;
          startX' = num (startX transformation); startY' = num (startY transformation)
      in if getNearness (startX', startY') (x, y) MIN_REFLECTION_LINE_LENGTH then
           transformation
         else if Math_abs (y - startY') \<le> REFLECTION_TOLERANCE
                 \<and> REFLECTION_TOLERANCE < Math_abs (x - startX') then
           transformation\<lparr>scaleX := Some (Fin 1), scaleY := Some (- Fin 1),
                          slideX := Some (Fin 0), slideY := startY transformation,
                          angle := Some Math_PI\<rparr>
         else if Math_abs (x - startX') \<le> REFLECTION_TOLERANCE
                 \<and> REFLECTION_TOLERANCE < Math_abs (y - startY') then
           transformation\<lparr>scaleX := Some (- Fin 1), scaleY := Some (Fin 1),
                          slideX := startX transformation, slideY := Some (Fin 0),
                          angle := Some Math_PI\<rparr>
         else if \<not> js_eq x startX' then
           (let tan = (y - startY') / (x - startX')
            in transformation\<lparr>scaleX := Some (Fin 1), scaleY := Some (- Fin 1),
                              slideX := Some (Fin 0), slideY := Some (startY' - startX' * tan),
                              angle := Some (Math_PI + Math_atan tan)\<rparr>)
         else if \<not> js_eq y startY' then
           (let tan = (x - startX') / (y - startY')
            in transformation\<lparr>scaleX := Some (- Fin 1), scaleY := Some (Fin 1),
                              slideX := Some (startX' - startY' * tan), slideY := Some (Fin 0),
                              angle := Some (Math_PI - Math_atan tan)\<rparr>)
         else transformation)"

text \<open>
  \<^verbatim>\<open>updateTransformation\<close> works on the last record; with no record it reads a field of
  \<^verbatim>\<open>null\<close> and throws.
\<close>

definition updateTransformation :: "number \<Rightarrow> number \<Rightarrow> element \<Rightarrow> element option" where
  "updateTransformation x y this =
     (case lastTransformation this of
        None \<Rightarrow> None
      | Some transformation \<Rightarrow>
          (let i = length (transformations this) - 1 in
           if type transformation = TRANSLATION then
             Some (setTransformation this i
                     (transformation\<lparr>slideX := Some (x - num (startX transformation)),
                                     slideY := Some (y - num (startY transformation))\<rparr>))
           else if type transformation = ROTATION then
             do { (center, this) \<leftarrow> getTransformedCenter this i;
                  let transformation = transformations this ! i;
                  Some (setTransformation this i
                          (transformation\<lparr>angle :=
                             Some (getAngle (fst center) (snd center)
                                     (num (startX transformation)) (num (startY transformation))
                                     x y)\<rparr>)) }
           else if type transformation = SCALE_PRESERVE then
             do { (center, this) \<leftarrow> getTransformedCenter this i;
                  let transformation = transformations this ! i;
                  let scale = updateScale center transformation x y;
                  Some (setTransformation this i
                          (transformation\<lparr>scaleX := Some scale, scaleY := Some scale\<rparr>)) }
           else if type transformation = STRETCH then
             do { (center, this) \<leftarrow> getTransformedCenter this i;
                  let transformation = transformations this ! i;
                  let startAngle = getAngle (fst center) (snd center) (fst center + Fin 1)
                                     (snd center) (num (startX transformation))
                                     (num (startY transformation));
                  let vertical = (Math_sin (Math_PI / Fin 2 - STRETCH_TOLERANCE)
                                    \<le> Math_abs (Math_sin startAngle));
                  let horizontal = (Math_cos STRETCH_TOLERANCE \<le> Math_abs (Math_cos startAngle));
                  let scale = updateScale center transformation x y;
                  Some (setTransformation this i
                          (transformation\<lparr>scaleX := Some (if vertical then Fin 1 else scale),
                                          scaleY := Some (if \<not> vertical then Fin 1 else scale),
                                          angle := Some (if vertical \<or> horizontal then Fin 0
                                                         else getAngle (fst center) (snd center)
                                                                (fst center + Fin 1) (snd center)
                                                                x y)\<rparr>)) }
           else if type transformation = REFLECTION then
             Some (setTransformation this i (updateReflection transformation x y))
           else
             Some (setTransformation this i
                     (transformation\<lparr>endX := Some x, endY := Some y,
                                     scaleX := Some (- Fin 1), scaleY := Some (- Fin 1),
                                     slideX := Some x, slideY := Some y,
                                     angle := Some (Math_PI + Math_atan (y / js_or x (Fin 1)))\<rparr>))))"

text \<open>The four \<^verbatim>\<open>delete\<close> statements of \<^verbatim>\<open>stopTransformation\<close>.\<close>

definition deleteTransient :: "transformation \<Rightarrow> transformation" where
  "deleteTransient transformation =
     transformation\<lparr>startX := None, startY := None, endX := None, endY := None\<rparr>"

definition stopTransformation :: "element \<Rightarrow> element option" where
  "stopTransformation this =
     (case lastTransformation this of
        None \<Rightarrow> None
      | Some transformation \<Rightarrow>
          (let this = (if type transformation = REFLECTION \<or> type transformation = INVERSION
                       then this\<lparr>showSymmetryElement := False\<rparr> else this)
           in if type transformation = REFLECTION
                 \<and> getNearness (num (startX transformation), num (startY transformation))
                                (num (endX transformation), num (endY transformation))
                                MIN_REFLECTION_LINE_LENGTH
                 \<or> type transformation = TRANSLATION
                   \<and> Math_hypot (num (slideX transformation)) (num (slideY transformation))
                     < MIN_TRANSLATION_DISTANCE
                 \<or> type transformation = ROTATION
                   \<and> Math_abs (num (angle transformation)) < MIN_ROTATION_ANGLE
              then Some (this\<lparr>transformations := butlast (transformations this)\<rparr>)
              else Some (setTransformation this (length (transformations this) - 1)
                           (deleteTransient transformation))))"

section \<open>Concrete elements\<close>

text \<open>An element of a given shape with no point and no transformation yet.\<close>

definition sampleElement :: "Shapes \<Rightarrow> element" where
  "sampleElement s =
     init \<lparr>params_shape = s, params_color = ''#ff0000'',
           params_line = \<lparr>lineCap = 1, lineJoin = 1, lineWidth = Fin 5\<rparr>,
           params_dash = \<lparr>active = False, array = [Fin 0, Fin 0], offset = Fin 0\<rparr>,
           params_fill = False, params_fillRule = None, params_eraser = False,
           params_transformations = None, params_text = None, params_lineIndex = None,
           params_textRightAligned = False, params_font = None, params_points = [],
           params_transform = None\<rparr>"

text \<open>A rectangle from \<open>(-1, -1)\<close> to \<open>(1, 1)\<close>, whose center is the origin.\<close>

definition squareElement :: element where
  "squareElement = (sampleElement RECTANGLE)\<lparr>points := [pt (- 1, - 1), pt (1, 1)]\<rparr>"

text \<open>The same rectangle with a committed rotation.\<close>

definition rotatedSquare :: element where
  "rotatedSquare =
     squareElement\<lparr>transformations := [(newTransformation ROTATION)\<lparr>angle := Some (Fin 1)\<rparr>]\<rparr>"

text \<open>The rectangle at the start of a ScalePreserve gesture begun at \<open>(1, 0)\<close>.\<close>

definition scaleGesture :: element where
  "scaleGesture = startTransformation (Fin 1) (Fin 0) SCALE_PRESERVE squareElement"

section \<open>The record after an update\<close>

text \<open>
  What \<^verbatim>\<open>updateTransformation\<close> writes into a record, as a function of the record, of the
  pointer and, for the three types that turn or scale about it, of the center.
\<close>

definition usesCenter :: "Transformations \<Rightarrow> bool" where
  "usesCenter ty = (ty = ROTATION \<or> ty = SCALE_PRESERVE \<or> ty = STRETCH)"

definition updated :: "point \<Rightarrow> transformation \<Rightarrow> number \<Rightarrow> number \<Rightarrow> transformation" where
  "updated center t x y =
     (if type t = TRANSLATION then
        t\<lparr>slideX := Some (x - num (startX t)), slideY := Some (y - num (startY t))\<rparr>
      else if type t = ROTATION then
        t\<lparr>angle := Some (getAngle (fst center) (snd center)
                          (num (startX t)) (num (startY t)) x y)\<rparr>
      else if type t = SCALE_PRESERVE then
        t\<lparr>scaleX := Some (updateScale center t x y), scaleY := Some (updateScale center t x y)\<rparr>
      else if type t = STRETCH then
        (let startAngle = getAngle (fst center) (snd center) (fst center + Fin 1) (snd center)
                            (num (startX t)) (num (startY t));
             vertical = (Math_sin (Math_PI / Fin 2 - STRETCH_TOLERANCE)
                           \<le> Math_abs (Math_sin startAngle));
             horizontal = (Math_cos STRETCH_TOLERANCE \<le> Math_abs (Math_cos startAngle));
             scale = updateScale center t x y
         in t\<lparr>scaleX := Some (if vertical then Fin 1 else scale),
               scaleY := Some (if \<not> vertical then Fin 1 else scale),
               angle := Some (if vertical \<or> horizontal then Fin 0
                              else getAngle (fst center) (snd center) (fst center + Fin 1)
                                     (snd center) x y)\<rparr>)
      else if type t = REFLECTION then updateReflection t x y
      else t\<lparr>endX := Some x, endY := Some y, scaleX := Some (- Fin 1), scaleY := Some (- Fin 1),
             slideX := Some x, slideY := Some y,
             angle := Some (Math_PI + Math_atan (y / js_or x (Fin 1)))\<rparr>)"

section \<open>Rounding to doubles\<close>

text \<open>Rounding to the nearest integer, a tie to the even one.\<close>

definition rne :: "real \<Rightarrow> int" where
  "rne x =
     (let f = \<lfloor>x\<rfloor>; d = x - of_int f
      in if d < 1 / 2 then f else if 1 / 2 < d then f + 1 else if even f then f else f + 1)"

text \<open>
  The double nearest to a real: 53 significant bits, ties to even. The exponent range is
  taken as unbounded (no overflow, no subnormal numbers).
\<close>

definition round_double :: "real \<Rightarrow> real" where
  "round_double a =
     (if a = 0 then 0
      else (let e = \<lfloor>log 2 \<bar>a\<bar>\<rfloor> - 52
            in of_int (rne (a / 2 powr of_int e)) * 2 powr of_int e))"

text \<open>Rounding a number; the infinities and NaN are doubles already.\<close>

fun rd :: "number \<Rightarrow> number" where
  "rd (Fin a) = Fin (round_double a)"
| "rd a = a"

text \<open>
  \<^verbatim>\<open>getAngle\<close> once more, with the result of every operation rounded as JavaScript rounds
  it. \<^verbatim>\<open>Math.hypot\<close> and \<^verbatim>\<open>Math.acos\<close> belong to the runtime, which may approximate
  them; they are taken as correctly rounded.
\<close>

definition getAngle_double ::
  "number \<Rightarrow> number \<Rightarrow> number \<Rightarrow> number \<Rightarrow> number \<Rightarrow> number \<Rightarrow> number" where
  "getAngle_double xO yO xA yA xB yB =
     (let cos = rd (rd (rd (rd (xA - xO) * rd (xB - xO)) + rd (rd (yA - yO) * rd (yB - yO)))
                    / rd (rd (Math_hypot (rd (xA - xO)) (rd (yA - yO)))
                          * rd (Math_hypot (rd (xB - xO)) (rd (yB - yO)))));
          cos = Math_min (Math_max (- Fin 1) cos) (Fin 1);
          angle = rd (Math_acos cos)
      in if js_eq xA xO
         then (if xO < xB then - angle else angle)
         else (let a = rd (rd (yA - yO) / rd (xA - xO));
                   b = rd (yA - rd (a * xA));
                   angle = (if yB < rd (rd (a * xB) + b) then - angle else angle);
                   angle = (if xA < xO then - angle else angle)
               in angle))"

section \<open>Geometric utilities: properties\<close>

lemma num_simps [simp]: "num None = NaN" "num (Some a) = a"
  by (simp_all add: num_def)

lemma getCentroid_points:
  "getCentroid ps = Some (c, ps') \<Longrightarrow> ps' = ps"
  by (cases ps)
     (auto simp: getCentroid_def Let_def split: prod.splits if_splits Option.bind_splits)

text \<open>
  C10. On a non-empty array \<^verbatim>\<open>getCentroid\<close> returns a center and leaves the array as it
  found it: the first point that it pushes to close the polygon is popped before either
  return, the one for a zero area and the normal one.
\<close>

theorem getCentroid_frame:
  "ps \<noteq> [] \<Longrightarrow> \<exists>c. getCentroid ps = Some (c, ps)"
  by (cases ps)
     (auto simp: getCentroid_def getNaiveCenter_def Let_def split: prod.splits)

theorem getCentroid_frame_witness:
  "[pt (0, 0), pt (4, 0), pt (0, 4)] \<noteq> []
   \<and> (\<exists>c. getCentroid [pt (0, 0), pt (4, 0), pt (0, 4)]
            = Some (c, [pt (0, 0), pt (4, 0), pt (0, 4)]))"
  using getCentroid_frame [of "[pt (0, 0), pt (4, 0), pt (0, 4)]"] by simp

text \<open>
  C5. On points with finite coordinates \<^verbatim>\<open>getCurveCenter\<close> is the point of the cubic
  B\'ezier curve at \<open>t = 2/3\<close> when \<open>p0 = p1\<close>, and at \<open>t = 1/2\<close> otherwise.
\<close>

theorem getCurveCenter_bezier:
  "getCurveCenter (pt p0) (pt p1) (pt p2) (pt p3) =
     (if p0 = p1 then cubicBezierPoint p0 p1 p2 p3 (2 / 3)
      else cubicBezierPoint p0 p1 p2 p3 (1 / 2))"
  by (cases p0; cases p1)
     (auto simp: getCurveCenter_def pt_def js_eq_def cubicBezierPoint_def cubicBezierCoord_def
        power2_eq_square power3_eq_cube field_simps)

text \<open>
  In exact arithmetic the angle that \<^verbatim>\<open>getAngle\<close> gives from a point \<open>A \<noteq> O\<close> to itself is
  zero: the cosine is 1, inside the range to which it is clamped, and its inverse cosine is 0
  whatever sign it then gets.
\<close>

lemma getAngle_same_point_exact:
  assumes "(xA, yA) \<noteq> (xO, yO)"
  shows "getAngle (Fin xO) (Fin yO) (Fin xA) (Fin yA) (Fin xA) (Fin yA) = Fin 0"
proof -
  let ?dx = "xA - xO" and ?dy = "yA - yO"
  have pos: "0 < ?dx * ?dx + ?dy * ?dy"
    using assms by (auto simp: sum_squares_gt_zero_iff)
  have sq: "sqrt (?dx * ?dx + ?dy * ?dy) * sqrt (?dx * ?dx + ?dy * ?dy) = ?dx * ?dx + ?dy * ?dy"
    using pos by simp
  have cos1: "((Fin xA - Fin xO) * (Fin xA - Fin xO) + (Fin yA - Fin yO) * (Fin yA - Fin yO))
              / (Math_hypot (Fin xA - Fin xO) (Fin yA - Fin yO)
                 * Math_hypot (Fin xA - Fin xO) (Fin yA - Fin yO)) = Fin 1"
    using pos assms by (auto simp: minus_number_def sq)
  show ?thesis
    unfolding getAngle_def cos1
    by (simp add: Let_def Math_min_def Math_max_def js_eq_def)
qed

text \<open>With \<open>A = O\<close> the quotient is \<open>0 / 0\<close>, and the angle is NaN through the clamp.\<close>

lemma getAngle_on_center:
  "getAngle (Fin xO) (Fin yO) (Fin xO) (Fin yO) xB yB = NaN"
  by (cases xB; cases yB)
     (simp_all add: getAngle_def Let_def Math_min_def Math_max_def js_eq_def minus_number_def)

section \<open>The angle of a point to itself, in doubles\<close>

lemma rne_unique:
  assumes "of_int m - 1 / 2 < x" and "x < of_int m + 1 / 2"
  shows "rne x = m"
proof (cases "of_int m \<le> x")
  case True
  then have "\<lfloor>x\<rfloor> = m" using assms by linarith
  then show ?thesis using assms by (simp add: rne_def Let_def)
next
  case False
  then have "\<lfloor>x\<rfloor> = m - 1" using assms by linarith
  then show ?thesis using assms False by (simp add: rne_def Let_def)
qed

lemma round_double_at:
  assumes "0 < a" and "s = 2 powr of_int k" and "2 ^ 52 \<le> a / s" and "a / s < 2 ^ 53"
  shows "round_double a = of_int (rne (a / s)) * s"
proof -
  have p: "(0::real) < 2 powr of_int k" by simp
  have lo: "2 powr of_int (k + 52) \<le> a"
    using assms(3) p unfolding assms(2) by (simp add: powr_add field_simps)
  have hi: "a < 2 powr (of_int (k + 52) + 1)"
    using assms(4) p unfolding assms(2) by (simp add: powr_add field_simps)
  have "\<lfloor>log 2 a\<rfloor> = k + 52"
    using lo hi assms(1) by (simp add: floor_log_eq_powr_iff)
  then show ?thesis using assms(1) unfolding assms(2) by (simp add: round_double_def)
qed

lemma round_double_pos:
  assumes "0 < a"
  shows "0 < round_double a"
proof -
  define L where "L = \<lfloor>log 2 a\<rfloor>"
  define s :: real where "s = 2 powr of_int (L - 52)"
  have s: "0 < s" by (simp add: s_def)
  have b: "2 powr of_int L \<le> a"
    using assms floor_log_eq_powr_iff [of a 2 L] by (simp add: L_def)
  have "s = 2 powr of_int L / 2 ^ 52"
    by (simp add: s_def powr_diff)
  then have "2 powr of_int L = 2 ^ 52 * s" by simp
  then have "1 * s \<le> a" using b s by (simp add: mult.commute)
  then have "1 \<le> a / s" using s by (simp add: pos_le_divide_eq)
  then have "1 \<le> \<lfloor>a / s\<rfloor>" by linarith
  then have "0 < rne (a / s)"
    by (simp add: rne_def Let_def)
  then show ?thesis using assms s by (simp add: round_double_def L_def s_def)
qed

lemma pow_m52: "(1 / 2 ^ 52 :: real) = 2 powr of_int (- 52)"
  and pow_m51: "(1 / 2 ^ 51 :: real) = 2 powr of_int (- 51)"
  and pow_m53: "(1 / 2 ^ 53 :: real) = 2 powr of_int (- 53)"
  by (simp_all add: powr_minus_divide)

lemma round_double_1: "round_double 1 = 1"
proof -
  have r: "rne (1 / (1 / 2 ^ 52)) = 2 ^ 52"
    by (intro rne_unique) simp_all
  have "round_double 1 = of_int (rne (1 / (1 / 2 ^ 52))) * (1 / 2 ^ 52)"
    by (rule round_double_at [OF _ pow_m52]) simp_all
  then show ?thesis unfolding r by simp
qed

lemma round_double_2: "round_double 2 = 2"
proof -
  have r: "rne (2 / (1 / 2 ^ 51)) = 2 ^ 52"
    by (intro rne_unique) simp_all
  have "round_double 2 = of_int (rne (2 / (1 / 2 ^ 51))) * (1 / 2 ^ 51)"
    by (rule round_double_at [OF _ pow_m51]) simp_all
  then show ?thesis unfolding r by simp
qed

lemma round_double_sqrt2: "round_double (sqrt 2) = 6369051672525773 / 2 ^ 52"
proof -
  have lo: "(6369051672525773 - 1 / 2) / 2 ^ 52 < sqrt 2"
    by (rule real_less_rsqrt) (simp add: power2_eq_square)
  have hi: "sqrt 2 < (6369051672525773 + 1 / 2) / 2 ^ 52"
    by (rule real_less_lsqrt) (simp_all add: power2_eq_square)
  have r: "rne (sqrt 2 / (1 / 2 ^ 52)) = 6369051672525773"
    using lo hi by (intro rne_unique) (simp_all add: field_simps)
  have "round_double (sqrt 2) = of_int (rne (sqrt 2 / (1 / 2 ^ 52))) * (1 / 2 ^ 52)"
    using lo hi by (intro round_double_at [OF _ pow_m52]) (simp_all add: field_simps)
  then show ?thesis unfolding r by simp
qed

lemma round_double_square:
  "round_double (6369051672525773 / 2 ^ 52 * (6369051672525773 / 2 ^ 52))
     = 4503599627370497 / 2 ^ 51"
proof -
  let ?a = "6369051672525773 / 2 ^ 52 * (6369051672525773 / 2 ^ 52) :: real"
  have r: "rne (?a / (1 / 2 ^ 51)) = 4503599627370497"
    by (intro rne_unique) simp_all
  have "round_double ?a = of_int (rne (?a / (1 / 2 ^ 51))) * (1 / 2 ^ 51)"
    by (rule round_double_at [OF _ pow_m51]) simp_all
  then show ?thesis unfolding r by simp
qed

lemma round_double_quotient:
  "round_double (2 / (4503599627370497 / 2 ^ 51)) = 9007199254740990 / 2 ^ 53"
proof -
  let ?a = "2 / (4503599627370497 / 2 ^ 51) :: real"
  have r: "rne (?a / (1 / 2 ^ 53)) = 9007199254740990"
    by (intro rne_unique) simp_all
  have "round_double ?a = of_int (rne (?a / (1 / 2 ^ 53))) * (1 / 2 ^ 53)"
    by (rule round_double_at [OF _ pow_m53]) simp_all
  then show ?thesis unfolding r by simp
qed

text \<open>
  C8 fails on the code. With the center at \<open>(0, 0)\<close> and the point \<open>(1, 1)\<close> as both
  reference and target, \<^verbatim>\<open>Math.hypot\<close> gives the double nearest to the square root of 2,
  6369051672525773 / 2^52. Its square rounds to 4503599627370497 / 2^51, just above 2, and the
  cosine, 2 divided by that, rounds to 9007199254740990 / 2^53, just below 1. The clamp
  leaves a value below 1 alone, so \<^verbatim>\<open>getAngle\<close> returns the rounded inverse cosine of that
  value, which is positive (about 2.1e-8), where exact arithmetic gives 0.
\<close>

theorem getAngle_double_undershoot:
  "getAngle_double (Fin 0) (Fin 0) (Fin 1) (Fin 1) (Fin 1) (Fin 1)
     = Fin (round_double (arccos (9007199254740990 / 2 ^ 53)))
   \<and> 0 < round_double (arccos (9007199254740990 / 2 ^ 53))
   \<and> getAngle (Fin 0) (Fin 0) (Fin 1) (Fin 1) (Fin 1) (Fin 1) = Fin 0"
proof -
  define H :: real where "H = 6369051672525773 / 2 ^ 52"
  define K :: real where "K = 4503599627370497 / 2 ^ 51"
  define C :: real where "C = 9007199254740990 / 2 ^ 53"
  have C: "- 1 \<le> C" "C < 1" by (simp_all add: C_def)
  have "arccos 1 < arccos C"
    using C by (intro arccos_less_arccos) simp_all
  then have pos: "0 < round_double (arccos C)"
    by (intro round_double_pos) simp
  have diff: "Fin 1 - Fin 0 = Fin 1" and same: "Fin 1 - Fin 1 = Fin 0"
    by (simp_all add: minus_number_def)
  have r1: "rd (Fin 1) = Fin 1" and r2: "rd (Fin 2) = Fin 2"
    by (simp_all add: round_double_1 round_double_2)
  have r0: "rd (Fin 0) = Fin 0"
    by (simp add: round_double_def)
  have prod: "Fin 1 * Fin 1 = Fin 1" and sum: "Fin 1 + Fin 1 = Fin 2"
    and quot: "Fin 1 / Fin 1 = Fin 1" and sum0: "Fin 1 + Fin 0 = Fin 1"
    by simp_all
  have hyp: "rd (Math_hypot (Fin 1) (Fin 1)) = Fin H"
    by (simp add: round_double_sqrt2 H_def)
  have sq: "rd (Fin H * Fin H) = Fin K"
    using round_double_square by (simp add: H_def K_def)
  have q: "rd (Fin 2 / Fin K) = Fin C"
    using round_double_quotient by (simp add: K_def C_def)
  have clamp: "Math_min (Math_max (- Fin 1) (Fin C)) (Fin 1) = Fin C"
    using C by (simp add: Math_min_def Math_max_def)
  have ac: "rd (Math_acos (Fin C)) = Fin (round_double (arccos C))"
    using C by simp
  have cmp: "js_eq (Fin 1) (Fin 0) = False" "(Fin 1 < Fin 1) = False" "(Fin 1 < Fin 0) = False"
    by (simp_all add: js_eq_def)
  have ev: "getAngle_double (Fin 0) (Fin 0) (Fin 1) (Fin 1) (Fin 1) (Fin 1)
              = Fin (round_double (arccos C))"
    unfolding getAngle_double_def Let_def
    by (simp only: diff same r1 r2 r0 prod sum quot sum0 hyp sq q clamp ac cmp if_False)
  have ex: "getAngle (Fin 0) (Fin 0) (Fin 1) (Fin 1) (Fin 1) (Fin 1) = Fin 0"
    using getAngle_same_point_exact [of 1 1 0 0] by simp
  show ?thesis using ev pos ex by (simp add: C_def)
qed

section \<open>Caches and frames\<close>

text \<open>
  \<^verbatim>\<open>_getOriginalCenter\<close> changes nothing but its cache: the points that
  \<^verbatim>\<open>getCentroid\<close> works on come back as they were.
\<close>

lemma getOriginalCenter_frame:
  assumes "getOriginalCenter e = Some (c, e')"
  shows "e' = e\<lparr>originalCenter := Some c\<rparr>"
proof (cases "originalCenter e")
  case (Some c0)
  then show ?thesis using assms by (simp add: getOriginalCenter_def)
next
  case None
  consider (ellipse) "shape e = ELLIPSE"
    | (curve4) "shape e \<noteq> ELLIPSE" "shape e = LINE \<and> length (points e) = 4"
    | (curve3) "shape e \<noteq> ELLIPSE" "shape e = LINE \<and> length (points e) = 3"
    | (txt_shape) "shape e \<noteq> ELLIPSE" "\<not> (shape e = LINE \<and> length (points e) = 4)"
        "\<not> (shape e = LINE \<and> length (points e) = 3)"
        "shape e = TEXT \<and> truthy (num (textWidth e))"
    | (centroid) "shape e \<noteq> ELLIPSE" "\<not> (shape e = LINE \<and> length (points e) = 4)"
        "\<not> (shape e = LINE \<and> length (points e) = 3)"
        "\<not> (shape e = TEXT \<and> truthy (num (textWidth e)))" "3 \<le> length (points e)"
    | (naive) "shape e \<noteq> ELLIPSE" "\<not> (shape e = LINE \<and> length (points e) = 4)"
        "\<not> (shape e = LINE \<and> length (points e) = 3)"
        "\<not> (shape e = TEXT \<and> truthy (num (textWidth e)))" "\<not> 3 \<le> length (points e)"
    by blast
  then show ?thesis
  proof cases
    case ellipse
    have "getOriginalCenter e =
            (if length (points e) < 1 then None
             else Some (points e ! 0, e\<lparr>originalCenter := Some (points e ! 0)\<rparr>))"
      using None ellipse by (auto simp add: getOriginalCenter_def Let_def)
    then show ?thesis using assms by (simp split: if_splits)
  next
    case curve4
    have "getOriginalCenter e =
            (let c = getCurveCenter (points e ! 0) (points e ! 1) (points e ! 2) (points e ! 3)
             in Some (c, e\<lparr>originalCenter := Some c\<rparr>))"
      using None curve4 by (auto simp add: getOriginalCenter_def Let_def)
    then show ?thesis using assms by (simp add: Let_def)
  next
    case curve3
    have "getOriginalCenter e =
            (let c = getCurveCenter (points e ! 0) (points e ! 0) (points e ! 1) (points e ! 2)
             in Some (c, e\<lparr>originalCenter := Some c\<rparr>))"
      using None curve3 by (auto simp add: getOriginalCenter_def Let_def)
    then show ?thesis using assms by (simp add: Let_def)
  next
    case txt_shape
    have "getOriginalCenter e =
            (if length (points e) < 2 then None
              else (let c = (fst (points e ! 1),
                             Math_max (snd (points e ! 0)) (snd (points e ! 1)) - getLineOffset e)
                    in Some (c, e\<lparr>originalCenter := Some c\<rparr>)))"
      using None txt_shape by (auto simp add: getOriginalCenter_def Let_def)
    then show ?thesis using assms by (simp add: Let_def split: if_splits)
  next
    case centroid
    have "getOriginalCenter e =
            do { (c, ps) \<leftarrow> getCentroid (points e);
                 Some (c, e\<lparr>points := ps, originalCenter := Some c\<rparr>) }"
      using None centroid by (auto simp add: getOriginalCenter_def Let_def)
    then obtain ps where "getCentroid (points e) = Some (c, ps)"
      and "e' = e\<lparr>points := ps, originalCenter := Some c\<rparr>"
      using assms by (auto split: Option.bind_splits)
    then show ?thesis using getCentroid_points by fastforce
  next
    case naive
    have "getOriginalCenter e =
            do { c \<leftarrow> getNaiveCenter (points e); Some (c, e\<lparr>originalCenter := Some c\<rparr>) }"
      using None naive by (auto simp add: getOriginalCenter_def Let_def)
    then show ?thesis using assms by (auto split: Option.bind_splits)
  qed
qed

lemma cache_update_id:
  "elementTransformedCenter t = Some c \<Longrightarrow> t\<lparr>elementTransformedCenter := Some c\<rparr> = t"
  by (cases t) simp

lemma getTransformedCenter_cached:
  "elementTransformedCenter (transformations e ! i) = Some c \<Longrightarrow>
   getTransformedCenter e i = Some (c, e)"
  by (simp add: getTransformedCenter_def)

text \<open>\<^verbatim>\<open>_getTransformedCenter\<close> changes the two caches only.\<close>

lemma getTransformedCenter_frame:
  assumes "getTransformedCenter e i = Some (c, e')"
  shows "e' = e\<lparr>originalCenter := originalCenter e',
                transformations := (transformations e)
                  [i := (transformations e ! i)\<lparr>elementTransformedCenter := Some c\<rparr>]\<rparr>"
proof (cases "elementTransformedCenter (transformations e ! i)")
  case (Some c0)
  then have "c0 = c" "e' = e" using assms by (simp_all add: getTransformedCenter_def)
  then show ?thesis using Some by (simp add: cache_update_id)
next
  case None
  then obtain oc e0 where oc: "getOriginalCenter e = Some (oc, e0)"
    and e': "e' = e0\<lparr>transformations := (transformations e0)
                     [i := (transformations e0 ! i)\<lparr>elementTransformedCenter := Some c\<rparr>]\<rparr>"
    using assms
    by (auto simp: getTransformedCenter_def Let_def split: Option.bind_splits)
  have "e0 = e\<lparr>originalCenter := Some oc\<rparr>" using getOriginalCenter_frame [OF oc] .
  then show ?thesis using e' by simp
qed

lemma getTransformedCenter_transformations:
  assumes "getTransformedCenter e i = Some (c, e')"
  shows "transformations e' = (transformations e)
        [i := (transformations e ! i)\<lparr>elementTransformedCenter := Some c\<rparr>]"
proof -
  have "transformations e' = transformations (e\<lparr>originalCenter := originalCenter e',
                transformations := (transformations e)
                  [i := (transformations e ! i)\<lparr>elementTransformedCenter := Some c\<rparr>]\<rparr>)"
    using getTransformedCenter_frame [OF assms] by simp
  then show ?thesis by simp
qed

lemma lastTransformation_Some:
  "lastTransformation e = Some t \<Longrightarrow>
     transformations e \<noteq> [] \<and> t = transformations e ! (length (transformations e) - 1)"
  by (auto simp: lastTransformation_def split: if_splits)

lemma setTransformation_id:
  "i < length (transformations e) \<Longrightarrow> transformations e ! i = t \<Longrightarrow> setTransformation e i t = e"
  by (auto simp add: setTransformation_def)

section \<open>Updates through the written record\<close>

text \<open>
  \<^verbatim>\<open>updateTransformation\<close> fetches the center where the type needs one and puts
  \<open>updated\<close> in place of the last record.
\<close>

lemma updateTransformation_char:
  assumes "lastTransformation e = Some t"
  shows "updateTransformation x y e =
           (if usesCenter (type t) then
              (case getTransformedCenter e (length (transformations e) - 1) of
                 None \<Rightarrow> None
               | Some (c, e') \<Rightarrow>
                   Some (setTransformation e' (length (transformations e) - 1)
                           (updated c (transformations e' ! (length (transformations e) - 1)) x y)))
            else Some (setTransformation e (length (transformations e) - 1)
                         (updated (NaN, NaN) t x y)))"
proof -
  let ?i = "length (transformations e) - 1"
  have ty: "\<And>c e'. getTransformedCenter e ?i = Some (c, e') \<Longrightarrow>
              type (transformations e' ! ?i) = type t"
    using lastTransformation_Some [OF assms]
    by (auto dest!: getTransformedCenter_transformations)
  show ?thesis
  proof (cases "usesCenter (type t)")
    case False
    then show ?thesis using assms
      by (simp add: updateTransformation_def updated_def usesCenter_def Let_def)
  next
    case True
    show ?thesis
    proof (cases "getTransformedCenter e ?i")
      case None
      then show ?thesis using assms True
        by (auto simp add: updateTransformation_def usesCenter_def Let_def)
    next
      case (Some r)
      obtain c e' where r: "r = (c, e')" by (cases r)
      show ?thesis using assms True Some r ty [of c e']
        by (auto simp add: updateTransformation_def usesCenter_def Let_def updated_def)
    qed
  qed
qed

lemma updateReflection_frame:
  "type (updateReflection t x y) = type t"
  "startX (updateReflection t x y) = startX t"
  "startY (updateReflection t x y) = startY t"
  "elementTransformedCenter (updateReflection t x y) = elementTransformedCenter t"
  by (simp_all add: updateReflection_def Let_def)

text \<open>
  A Reflection update either leaves the parameters alone or sets all five, and which of the
  two, and to what, depends on the start point and the pointer only.
\<close>

lemma updateReflection_shape:
  "(\<forall>t'. startX t' = startX t \<and> startY t' = startY t \<longrightarrow>
       updateReflection t' x y = t'\<lparr>endX := Some x, endY := Some y\<rparr>)
   \<or> (\<exists>a b c d g. \<forall>t'. startX t' = startX t \<and> startY t' = startY t \<longrightarrow>
       updateReflection t' x y =
         t'\<lparr>endX := Some x, endY := Some y, scaleX := a, scaleY := b,
            slideX := c, slideY := d, angle := g\<rparr>)"
proof -
  let ?near = "getNearness (num (startX t), num (startY t)) (x, y) MIN_REFLECTION_LINE_LENGTH"
  let ?h = "Math_abs (y - num (startY t)) \<le> REFLECTION_TOLERANCE
            \<and> REFLECTION_TOLERANCE < Math_abs (x - num (startX t))"
  let ?v = "Math_abs (x - num (startX t)) \<le> REFLECTION_TOLERANCE
            \<and> REFLECTION_TOLERANCE < Math_abs (y - num (startY t))"
  let ?xe = "js_eq x (num (startX t))"
  let ?ye = "js_eq y (num (startY t))"
  consider (near) ?near | (horizontal) "\<not> ?near" ?h | (vertical) "\<not> ?near" "\<not> ?h" ?v
    | (slope) "\<not> ?near" "\<not> ?h" "\<not> ?v" "\<not> ?xe"
    | (steep) "\<not> ?near" "\<not> ?h" "\<not> ?v" ?xe "\<not> ?ye"
    | (none) "\<not> ?near" "\<not> ?h" "\<not> ?v" ?xe ?ye
    by blast
  then show ?thesis
  proof cases
    case near
    then have "\<forall>t'. startX t' = startX t \<and> startY t' = startY t \<longrightarrow>
       updateReflection t' x y = t'\<lparr>endX := Some x, endY := Some y\<rparr>"
      by (auto simp add: updateReflection_def Let_def)
    then show ?thesis by blast
  next
    case horizontal
    then have "\<forall>t'. startX t' = startX t \<and> startY t' = startY t \<longrightarrow>
       updateReflection t' x y = t'\<lparr>endX := Some x, endY := Some y,
          scaleX := Some (Fin 1), scaleY := Some (- Fin 1),
          slideX := Some (Fin 0), slideY := startY t, angle := Some Math_PI\<rparr>"
      by (auto simp add: updateReflection_def Let_def)
    then show ?thesis by blast
  next
    case vertical
    then have "\<forall>t'. startX t' = startX t \<and> startY t' = startY t \<longrightarrow>
       updateReflection t' x y = t'\<lparr>endX := Some x, endY := Some y,
          scaleX := Some (- Fin 1), scaleY := Some (Fin 1),
          slideX := startX t, slideY := Some (Fin 0), angle := Some Math_PI\<rparr>"
      by (auto simp add: updateReflection_def Let_def)
    then show ?thesis by blast
  next
    case slope
    then have "\<forall>t'. startX t' = startX t \<and> startY t' = startY t \<longrightarrow>
       updateReflection t' x y = t'\<lparr>endX := Some x, endY := Some y,
          scaleX := Some (Fin 1), scaleY := Some (- Fin 1),
          slideX := Some (Fin 0),
          slideY := Some (num (startY t) - num (startX t)
                          * ((y - num (startY t)) / (x - num (startX t)))),
          angle := Some (Math_PI + Math_atan ((y - num (startY t)) / (x - num (startX t))))\<rparr>"
      by (auto simp add: updateReflection_def Let_def)
    then show ?thesis by blast
  next
    case steep
    then have "\<forall>t'. startX t' = startX t \<and> startY t' = startY t \<longrightarrow>
       updateReflection t' x y = t'\<lparr>endX := Some x, endY := Some y,
          scaleX := Some (- Fin 1), scaleY := Some (Fin 1),
          slideX := Some (num (startX t) - num (startY t)
                          * ((x - num (startX t)) / (y - num (startY t)))),
          slideY := Some (Fin 0),
          angle := Some (Math_PI - Math_atan ((x - num (startX t)) / (y - num (startY t))))\<rparr>"
      by (auto simp add: updateReflection_def Let_def)
    then show ?thesis by blast
  next
    case none
    then have "\<forall>t'. startX t' = startX t \<and> startY t' = startY t \<longrightarrow>
       updateReflection t' x y = t'\<lparr>endX := Some x, endY := Some y\<rparr>"
      by (auto simp add: updateReflection_def Let_def)
    then show ?thesis by blast
  qed
qed

lemma updateReflection_idem:
  "updateReflection (updateReflection t x y) x y = updateReflection t x y"
proof -
  consider (keep) "\<forall>t'. startX t' = startX t \<and> startY t' = startY t \<longrightarrow>
       updateReflection t' x y = t'\<lparr>endX := Some x, endY := Some y\<rparr>"
    | (params) a b c d g where "\<forall>t'. startX t' = startX t \<and> startY t' = startY t \<longrightarrow>
       updateReflection t' x y =
         t'\<lparr>endX := Some x, endY := Some y, scaleX := a, scaleY := b,
            slideX := c, slideY := d, angle := g\<rparr>"
    using updateReflection_shape [of t x y] by blast
  then show ?thesis
  proof cases
    case keep
    have 1: "updateReflection t x y = t\<lparr>endX := Some x, endY := Some y\<rparr>"
      using keep by simp
    have 2: "updateReflection (t\<lparr>endX := Some x, endY := Some y\<rparr>) x y
             = t\<lparr>endX := Some x, endY := Some y\<rparr>\<lparr>endX := Some x, endY := Some y\<rparr>"
      using keep by simp
    show ?thesis unfolding 1 2 by simp
  next
    case params
    let ?t1 = "t\<lparr>endX := Some x, endY := Some y, scaleX := a, scaleY := b,
            slideX := c, slideY := d, angle := g\<rparr>"
    have 1: "updateReflection t x y = ?t1"
      using params by simp
    have 2: "updateReflection ?t1 x y =
               ?t1\<lparr>endX := Some x, endY := Some y, scaleX := a, scaleY := b,
                    slideX := c, slideY := d, angle := g\<rparr>"
      using params by simp
    show ?thesis unfolding 1 2 by simp
  qed
qed

lemma updated_frame:
  "type (updated c t x y) = type t"
  "startX (updated c t x y) = startX t"
  "startY (updated c t x y) = startY t"
  "elementTransformedCenter (updated c t x y) = elementTransformedCenter t"
  by (simp_all add: updated_def Let_def updateReflection_frame)

lemma updated_stretch:
  assumes "type (t::transformation) = STRETCH"
  shows "\<exists>a b g. \<forall>t'::transformation.
           type t' = STRETCH \<and> startX t' = startX t \<and> startY t' = startY t \<longrightarrow>
           updated c t' x y = t'\<lparr>scaleX := a, scaleY := b, angle := g\<rparr>"
proof -
  let ?startAngle = "getAngle (fst c) (snd c) (fst c + Fin 1) (snd c)
                            (num (startX t)) (num (startY t))"
  let ?vertical = "Math_sin (Math_PI / Fin 2 - STRETCH_TOLERANCE)
                     \<le> Math_abs (Math_sin ?startAngle)"
  let ?horizontal = "Math_cos STRETCH_TOLERANCE \<le> Math_abs (Math_cos ?startAngle)"
  let ?scale = "updateScale c t x y"
  have "\<forall>t'::transformation.
      type t' = STRETCH \<and> startX t' = startX t \<and> startY t' = startY t \<longrightarrow>
      updated c t' x y =
        t'\<lparr>scaleX := Some (if ?vertical then Fin 1 else ?scale),
            scaleY := Some (if \<not> ?vertical then Fin 1 else ?scale),
            angle := Some (if ?vertical \<or> ?horizontal then Fin 0
                           else getAngle (fst c) (snd c) (fst c + Fin 1) (snd c) x y)\<rparr>"
    by (simp add: updated_def Let_def updateScale_def)
  then show ?thesis by blast
qed

lemma updated_idem:
  "updated c (updated c t x y) x y = updated c t x y"
proof (cases "type t")
  case TRANSLATION
  then show ?thesis by (simp add: updated_def)
next
  case ROTATION
  then show ?thesis by (simp add: updated_def)
next
  case SCALE_PRESERVE
  then show ?thesis by (simp add: updated_def updateScale_def)
next
  case STRETCH
  obtain a b g where u: "\<forall>t'. type t' = STRETCH \<and> startX t' = startX t \<and> startY t' = startY t \<longrightarrow>
      updated c t' x y = t'\<lparr>scaleX := a, scaleY := b, angle := g\<rparr>"
    using updated_stretch [OF STRETCH] by blast
  have 1: "updated c t x y = t\<lparr>scaleX := a, scaleY := b, angle := g\<rparr>"
    using u STRETCH by simp
  have 2: "updated c (t\<lparr>scaleX := a, scaleY := b, angle := g\<rparr>) x y
           = t\<lparr>scaleX := a, scaleY := b, angle := g\<rparr>\<lparr>scaleX := a, scaleY := b, angle := g\<rparr>"
    using u STRETCH by simp
  show ?thesis unfolding 1 2 by simp
next
  case REFLECTION
  then show ?thesis by (simp add: updated_def updateReflection_frame updateReflection_idem)
next
  case INVERSION
  then show ?thesis by (simp add: updated_def)
qed

section \<open>Round trip through the persisted record\<close>

lemma round_hundredth:
  "\<bar>of_int \<lfloor>a * 100 + 1 / 2\<rfloor> / 100 - a\<bar> \<le> (1 / 200 :: real)"
proof -
  define n where "n = real_of_int \<lfloor>a * 100 + 1 / 2\<rfloor>"
  have "n \<le> a * 100 + 1 / 2" and "a * 100 + 1 / 2 < n + 1"
    unfolding n_def by linarith+
  then have "\<bar>n / 100 - a\<bar> \<le> 1 / 200" by linarith
  then show ?thesis unfolding n_def .
qed

text \<open>
  C1. Exporting an element with \<^verbatim>\<open>toJSON\<close> and constructing an element from the record
  gives back the same transformation list, and as many points, each with finite coordinates
  within 0.005 of the original ones (they are rounded to the nearest hundredth), so within
  the 0.01 of the claim.
\<close>

theorem toJSON_init_roundtrip:
  assumes "points e = map pt ps"
  shows "transformations (init (toJSON e)) = transformations e
         \<and> (\<exists>qs. points (init (toJSON e)) = map pt qs \<and> length qs = length ps
                \<and> (\<forall>i<length ps. \<bar>fst (qs ! i) - fst (ps ! i)\<bar> \<le> 1 / 200
                                   \<and> \<bar>snd (qs ! i) - snd (ps ! i)\<bar> \<le> 1 / 200))"
proof -
  let ?r = "\<lambda>a::real. (of_int \<lfloor>a * 100 + 1 / 2\<rfloor> / 100 :: real)"
  let ?qs = "map (\<lambda>p. (?r (fst p), ?r (snd p))) ps"
  have t: "transformations (init (toJSON e)) = transformations e"
    by (simp add: init_def toJSON_def Let_def split: option.splits)
  have p: "points (init (toJSON e)) = map pt ?qs"
    using assms
    by (simp add: init_def toJSON_def Let_def pt_def split: option.splits)
  have "\<forall>i<length ps. \<bar>fst (?qs ! i) - fst (ps ! i)\<bar> \<le> 1 / 200
                      \<and> \<bar>snd (?qs ! i) - snd (ps ! i)\<bar> \<le> 1 / 200"
  proof (intro allI impI)
    fix i assume "i < length ps"
    then have "?qs ! i = (?r (fst (ps ! i)), ?r (snd (ps ! i)))" by simp
    then show "\<bar>fst (?qs ! i) - fst (ps ! i)\<bar> \<le> 1 / 200
               \<and> \<bar>snd (?qs ! i) - snd (ps ! i)\<bar> \<le> 1 / 200"
      by (simp only: fst_conv snd_conv round_hundredth simp_thms)
  qed
  then show ?thesis using t p by (intro conjI exI [of _ ?qs]) simp_all
qed

theorem toJSON_init_roundtrip_witness:
  "points (rotatedSquare\<lparr>points := [pt (1 / 8, 1 / 3)]\<rparr>) = map pt [(1 / 8, 1 / 3)]
   \<and> transformations (init (toJSON (rotatedSquare\<lparr>points := [pt (1 / 8, 1 / 3)]\<rparr>)))
       = transformations rotatedSquare
   \<and> points (init (toJSON (rotatedSquare\<lparr>points := [pt (1 / 8, 1 / 3)]\<rparr>)))
       = [pt (13 / 100, 33 / 100)]"
proof -
  let ?e = "rotatedSquare\<lparr>points := [pt (1 / 8, 1 / 3)]\<rparr>"
  have h: "points ?e = map pt [(1 / 8, 1 / 3)]" by simp
  have p: "points (init (toJSON ?e)) = [pt (13 / 100, 33 / 100)]"
    by (simp add: init_def toJSON_def Let_def pt_def split: option.splits)
  show ?thesis using h p toJSON_init_roundtrip [OF h] by simp
qed

section \<open>The transformation gestures\<close>

lemmas gesture_defs =
  updateTransformation_def startTransformation_def lastTransformation_def
  getTransformedCenter_def newTransformation_def Let_def setTransformation_def
  scaleGesture_def squareElement_def sampleElement_def init_def getOriginalCenter_def
  getNaiveCenter_def pt_def matrix_transform_point_def updateScale_def js_or_def truthy_def
  minus_number_def

text \<open>
  C2. A second \<^verbatim>\<open>updateTransformation\<close> with the same pointer position leaves the element as
  the first call left it, and with it the parameters of the last record, whatever the type
  of the record.
\<close>

theorem updateTransformation_idempotent:
  assumes "updateTransformation x y e = Some e1"
  shows "updateTransformation x y e1 = Some e1"
proof -
  obtain t where lt: "lastTransformation e = Some t"
    using assms by (cases "lastTransformation e") (simp_all add: updateTransformation_def)
  let ?i = "length (transformations e) - 1"
  have ne: "transformations e \<noteq> []" and t: "t = transformations e ! ?i"
    using lastTransformation_Some [OF lt] by simp_all
  have i: "?i < length (transformations e)" using ne by simp
  have "\<exists>c e' t1. e1 = setTransformation e' ?i (updated c t1 x y)
            \<and> length (transformations e') = length (transformations e)
            \<and> type t1 = type t
            \<and> (usesCenter (type t) \<longrightarrow> elementTransformedCenter t1 = Some c)"
  proof (cases "usesCenter (type t)")
    case False
    then have "e1 = setTransformation e ?i (updated (NaN, NaN) t x y)"
      using assms updateTransformation_char [OF lt, of x y] by simp
    then show ?thesis using False by blast
  next
    case True
    then obtain c e' where g: "getTransformedCenter e ?i = Some (c, e')"
      and e1: "e1 = setTransformation e' ?i (updated c (transformations e' ! ?i) x y)"
      using assms updateTransformation_char [OF lt, of x y]
      by (auto split: option.splits)
    have ts': "transformations e' =
                 (transformations e)[?i := t\<lparr>elementTransformedCenter := Some c\<rparr>]"
      using getTransformedCenter_transformations [OF g] t by simp
    then have "transformations e' ! ?i = t\<lparr>elementTransformedCenter := Some c\<rparr>"
      using i by simp
    then show ?thesis using e1 ts' by (intro exI [of _ c] exI [of _ e']) auto
  qed
  then obtain c e' t1 where e1: "e1 = setTransformation e' ?i (updated c t1 x y)"
    and len: "length (transformations e') = length (transformations e)"
    and ty: "type t1 = type t"
    and cache: "usesCenter (type t) \<Longrightarrow> elementTransformedCenter t1 = Some c"
    by blast
  let ?u = "updated c t1 x y"
  have len1: "length (transformations e1) = length (transformations e)"
    using e1 len by (simp add: setTransformation_def)
  have nth1: "transformations e1 ! ?i = ?u"
    using e1 len i by (simp add: setTransformation_def)
  have lt1: "lastTransformation e1 = Some ?u"
    using len1 nth1 ne by (simp add: lastTransformation_def)
  have tyu: "type ?u = type t" using ty by (simp add: updated_frame)
  show ?thesis
  proof (cases "usesCenter (type t)")
    case False
    have "updated (NaN, NaN) ?u x y = updated c ?u x y"
      using False tyu by (simp add: updated_def usesCenter_def)
    then have "updateTransformation x y e1 = Some (setTransformation e1 ?i (updated c ?u x y))"
      using updateTransformation_char [OF lt1, of x y] False tyu len1 by simp
    then show ?thesis
      using setTransformation_id [of ?i e1 ?u] len1 i nth1 by (simp add: updated_idem)
  next
    case True
    have "elementTransformedCenter (transformations e1 ! ?i) = Some c"
      using nth1 cache [OF True] by (simp add: updated_frame)
    then have "getTransformedCenter e1 ?i = Some (c, e1)"
      by (rule getTransformedCenter_cached)
    then have "updateTransformation x y e1 = Some (setTransformation e1 ?i (updated c ?u x y))"
      using updateTransformation_char [OF lt1, of x y] True tyu len1 nth1 by simp
    then show ?thesis
      using setTransformation_id [of ?i e1 ?u] len1 i nth1 by (simp add: updated_idem)
  qed
qed

theorem updateTransformation_idempotent_witness:
  "updateTransformation (Fin 2) (Fin 0) scaleGesture
     = Some (the (updateTransformation (Fin 2) (Fin 0) scaleGesture))
   \<and> updateTransformation (Fin 2) (Fin 0) (the (updateTransformation (Fin 2) (Fin 0) scaleGesture))
     = Some (the (updateTransformation (Fin 2) (Fin 0) scaleGesture))
   \<and> scaleX (last (transformations (the (updateTransformation (Fin 2) (Fin 0) scaleGesture))))
     = Some (Fin 2)"
proof -
  have "updateTransformation (Fin 2) (Fin 0) scaleGesture \<noteq> None"
    by (simp add: gesture_defs)
  then have u: "updateTransformation (Fin 2) (Fin 0) scaleGesture
                  = Some (the (updateTransformation (Fin 2) (Fin 0) scaleGesture))"
    by simp
  have s: "scaleX (last (transformations (the (updateTransformation (Fin 2) (Fin 0) scaleGesture))))
             = Some (Fin 2)"
    by (simp add: gesture_defs)
  show ?thesis using u s updateTransformation_idempotent [OF u] by simp
qed

text \<open>
  C3. \<^verbatim>\<open>stopTransformation\<close> removes the last record exactly when it is a Reflection whose
  start and end are less than 10 apart, a Translation whose slide is shorter than 1, or a
  Rotation whose angle is less than \<open>\<pi>/1000\<close> in absolute value. Every other record, so every
  ScalePreserve, Stretch and Inversion, stays, without its start and end fields.
\<close>

theorem stopTransformation_policy:
  assumes "transformations e = ts @ [t]"
  shows "\<exists>e'. stopTransformation e = Some e'
           \<and> transformations e' =
               (if type t = REFLECTION
                   \<and> Math_hypot (num (endX t) - num (startX t)) (num (endY t) - num (startY t))
                     < Fin 10
                   \<or> type t = TRANSLATION
                     \<and> Math_hypot (num (slideX t)) (num (slideY t)) < Fin 1
                   \<or> type t = ROTATION \<and> Math_abs (num (angle t)) < Fin (pi / 1000)
                then ts
                else ts @ [t\<lparr>startX := None, startY := None, endX := None, endY := None\<rparr>])"
  using assms
  by (simp add: stopTransformation_def lastTransformation_def setTransformation_def
      deleteTransient_def getNearness_def MIN_REFLECTION_LINE_LENGTH_def
      MIN_TRANSLATION_DISTANCE_def MIN_ROTATION_ANGLE_def Math_PI_def Let_def)

theorem stopTransformation_policy_witness:
  "transformations (the (updateTransformation (Fin (1 / 2)) (Fin 0)
       (startTransformation (Fin 0) (Fin 0) TRANSLATION squareElement)))
     = [] @ [(newTransformation TRANSLATION)
               \<lparr>startX := Some (Fin 0), startY := Some (Fin 0),
                slideX := Some (Fin (1 / 2)), slideY := Some (Fin 0)\<rparr>]
   \<and> (\<exists>e'. stopTransformation (the (updateTransformation (Fin (1 / 2)) (Fin 0)
                (startTransformation (Fin 0) (Fin 0) TRANSLATION squareElement))) = Some e'
          \<and> transformations e' = [])"
proof -
  let ?e = "the (updateTransformation (Fin (1 / 2)) (Fin 0)
                  (startTransformation (Fin 0) (Fin 0) TRANSLATION squareElement))"
  let ?t = "(newTransformation TRANSLATION)
               \<lparr>startX := Some (Fin 0), startY := Some (Fin 0),
                slideX := Some (Fin (1 / 2)), slideY := Some (Fin 0)\<rparr>"
  have h: "transformations ?e = [] @ [?t]"
    by (simp add: gesture_defs)
  show ?thesis
    using h stopTransformation_policy [OF h] by (simp add: newTransformation_def)
qed

text \<open>
  C7. A Reflection begun at \<open>(0, 0)\<close> and updated at \<open>(10, 0)\<close>, on any element: the drag of
  length 10 is not nearer than \<^verbatim>\<open>MIN_REFLECTION_LINE_LENGTH\<close>, the horizontal branch sets
  \<open>scaleX = 1\<close>, \<open>scaleY = -1\<close>, \<open>slideX = 0\<close>, \<open>slideY = 0\<close> and \<open>angle = \<pi>\<close>.
\<close>

theorem reflection_horizontal_drag:
  "\<exists>e'. updateTransformation (Fin 10) (Fin 0)
           (startTransformation (Fin 0) (Fin 0) REFLECTION e) = Some e'
     \<and> length (transformations e') = length (transformations e) + 1
     \<and> type (last (transformations e')) = REFLECTION
     \<and> scaleX (last (transformations e')) = Some (Fin 1)
     \<and> scaleY (last (transformations e')) = Some (Fin (- 1))
     \<and> slideX (last (transformations e')) = Some (Fin 0)
     \<and> slideY (last (transformations e')) = Some (Fin 0)
     \<and> angle (last (transformations e')) = Some (Fin pi)
     \<and> \<not> getNearness (Fin 0, Fin 0) (Fin 10, Fin 0) MIN_REFLECTION_LINE_LENGTH"
  by (simp add: updateTransformation_def startTransformation_def lastTransformation_def
      setTransformation_def updateReflection_def newTransformation_def Let_def getNearness_def
      MIN_REFLECTION_LINE_LENGTH_def REFLECTION_TOLERANCE_def minus_number_def Math_PI_def)

text \<open>
  C6, as amended. A ScalePreserve update writes one scale into \<open>scaleX\<close> and \<open>scaleY\<close>. With
  \<open>d\<close> the distance from the center to the pointer and \<open>d0\<close> the distance from the center to
  the start, the scale is \<open>d / d0\<close> when both are finite and not zero, and 1 when \<open>d\<close> is
  zero, whatever \<open>d0\<close> is.
\<close>

theorem updateTransformation_scalePreserve:
  assumes "lastTransformation e = Some t" and "type t = SCALE_PRESERVE"
    and "getTransformedCenter e (length (transformations e) - 1) = Some (center, e')"
  shows "\<exists>e1 s. updateTransformation x y e = Some e1
           \<and> scaleX (last (transformations e1)) = Some s
           \<and> scaleY (last (transformations e1)) = Some s
           \<and> (\<forall>d d0. Math_hypot (x - fst center) (y - snd center) = Fin d
                  \<and> Math_hypot (num (startX t) - fst center) (num (startY t) - snd center)
                    = Fin d0
                  \<and> d \<noteq> 0 \<and> d0 \<noteq> 0 \<longrightarrow> s = Fin (d / d0))
           \<and> (Math_hypot (x - fst center) (y - snd center) = Fin 0 \<longrightarrow> s = Fin 1)"
proof -
  let ?i = "length (transformations e) - 1"
  let ?d = "Math_hypot (x - fst center) (y - snd center)"
  let ?ds = "Math_hypot (num (startX t) - fst center) (num (startY t) - snd center)"
  have ne: "transformations e \<noteq> []" and t: "t = transformations e ! ?i"
    using lastTransformation_Some [OF assms(1)] by simp_all
  have i: "?i < length (transformations e)" using ne by simp
  let ?t' = "t\<lparr>elementTransformedCenter := Some center\<rparr>"
  have ts': "transformations e' = (transformations e)[?i := ?t']"
    using getTransformedCenter_transformations [OF assms(3)] t by simp
  have nth': "transformations e' ! ?i = ?t'" using ts' i by simp
  let ?e1 = "setTransformation e' ?i (updated center ?t' x y)"
  have u: "updateTransformation x y e = Some ?e1"
    using updateTransformation_char [OF assms(1), of x y] assms(2,3) nth'
    by (simp add: usesCenter_def)
  have last1: "last (transformations ?e1) = updated center ?t' x y"
    using ts' i ne by (simp add: setTransformation_def last_conv_nth)
  let ?s = "js_or (?d / ?ds) (Fin 1)"
  have sx: "scaleX (updated center ?t' x y) = Some ?s"
    and sy: "scaleY (updated center ?t' x y) = Some ?s"
    using assms(2) by (simp_all add: updated_def updateScale_def)
  have q: "\<forall>d d0. ?d = Fin d \<and> ?ds = Fin d0 \<and> d \<noteq> 0 \<and> d0 \<noteq> 0 \<longrightarrow> ?s = Fin (d / d0)"
    by (auto simp: js_or_def truthy_def)
  have z: "?d = Fin 0 \<longrightarrow> ?s = Fin 1"
    by (cases ?ds) (auto simp: js_or_def truthy_def)
  show ?thesis
    using u last1 sx sy q z by (intro exI [of _ ?e1] exI [of _ ?s]) simp
qed

theorem updateTransformation_scalePreserve_witness:
  "lastTransformation scaleGesture
     = Some ((newTransformation SCALE_PRESERVE)
               \<lparr>startX := Some (Fin 1), startY := Some (Fin 0),
                scaleX := Some (Fin 1), scaleY := Some (Fin 1), angle := Some (Fin 0)\<rparr>)
   \<and> map_option fst (getTransformedCenter scaleGesture (length (transformations scaleGesture) - 1))
     = Some (Fin 0, Fin 0)
   \<and> scaleX (last (transformations (the (updateTransformation (Fin 2) (Fin 0) scaleGesture))))
     = Some (Fin 2)
   \<and> scaleY (last (transformations (the (updateTransformation (Fin 2) (Fin 0) scaleGesture))))
     = Some (Fin 2)"
proof -
  let ?t = "(newTransformation SCALE_PRESERVE)
               \<lparr>startX := Some (Fin 1), startY := Some (Fin 0),
                scaleX := Some (Fin 1), scaleY := Some (Fin 1), angle := Some (Fin 0)\<rparr>"
  let ?i = "length (transformations scaleGesture) - 1"
  have lt: "lastTransformation scaleGesture = Some ?t"
    by (simp add: gesture_defs)
  have ty: "type ?t = SCALE_PRESERVE" by (simp add: newTransformation_def)
  have "getTransformedCenter scaleGesture ?i \<noteq> None"
    and c: "map_option fst (getTransformedCenter scaleGesture ?i) = Some (Fin 0, Fin 0)"
    by (simp_all add: gesture_defs)
  then have g: "getTransformedCenter scaleGesture ?i
                  = Some ((Fin 0, Fin 0), snd (the (getTransformedCenter scaleGesture ?i)))"
    by (cases "getTransformedCenter scaleGesture ?i") auto
  obtain e1 s where u: "updateTransformation (Fin 2) (Fin 0) scaleGesture = Some e1"
    and sx: "scaleX (last (transformations e1)) = Some s"
    and sy: "scaleY (last (transformations e1)) = Some s"
    and q: "\<forall>d d0. Math_hypot (Fin 2 - fst (Fin 0, Fin 0)) (Fin 0 - snd (Fin 0, Fin 0)) = Fin d
                  \<and> Math_hypot (num (startX ?t) - fst (Fin 0, Fin 0))
                               (num (startY ?t) - snd (Fin 0, Fin 0)) = Fin d0
                  \<and> d \<noteq> 0 \<and> d0 \<noteq> 0 \<longrightarrow> s = Fin (d / d0)"
    using updateTransformation_scalePreserve [OF lt ty g, of "Fin 2" "Fin 0"] by blast
  have "s = Fin (2 / 1)"
    using q by (simp add: newTransformation_def minus_number_def)
  then show ?thesis using lt c u sx sy by simp
qed

text \<open>
  C6 as the claim states it fails. With the center at the origin and the start at \<open>(1, 0)\<close>,
  at distance 1 from it, a pointer on the center gives the quotient 0, which is falsy, and
  the scale written is 1.
\<close>

theorem scalePreserve_counterexample:
  "map_option fst (getTransformedCenter scaleGesture 0) = Some (Fin 0, Fin 0)
   \<and> Math_hypot (Fin 1 - Fin 0) (Fin 0 - Fin 0) = Fin 1
   \<and> Math_hypot (Fin 0 - Fin 0) (Fin 0 - Fin 0) / Math_hypot (Fin 1 - Fin 0) (Fin 0 - Fin 0)
     = Fin 0
   \<and> scaleX (last (transformations (the (updateTransformation (Fin 0) (Fin 0) scaleGesture))))
     = Some (Fin 1)"
  by (simp add: gesture_defs)

text \<open>
  A gesture that starts on the center itself divides by zero: with the pointer off the
  center the quotient is \<^verbatim>\<open>Infinity\<close>, which is truthy and is written as the scale.
\<close>

lemma scalePreserve_start_on_center:
  "scaleX (last (transformations (the (updateTransformation (Fin 1) (Fin 0)
     (startTransformation (Fin 0) (Fin 0) SCALE_PRESERVE squareElement))))) = Some PInf"
  by (simp add: gesture_defs)

section \<open>The point builders\<close>

text \<open>
  C9. On a freehand element with smoothing (the \<^verbatim>\<open>transform\<close> argument, or an existing
  transformation), \<^verbatim>\<open>updateDrawing\<close> with a new point appends it at index
  \<open>i = length points \<ge> 2\<close> and replaces the point at \<open>i - 1\<close> by the midpoint of the points at
  \<open>i - 2\<close> and \<open>i\<close>; nothing else changes.
\<close>

theorem updateDrawing_smooth:
  assumes "shape e = NONE" and "2 \<le> length (points e)"
    and "transform \<or> transformations e \<noteq> []"
    and "\<not> (js_eq x (fst (last (points e))) \<and> js_eq y (snd (last (points e))))"
  shows "updateDrawing x y transform e =
           Some (e\<lparr>points := (points e @ [(x, y)])
                   [length (points e) - 1 :=
                      ((fst (points e ! (length (points e) - 2)) + x) / Fin 2,
                       (snd (points e ! (length (points e) - 2)) + y) / Fin 2)]\<rparr>)"
proof -
  have ne: "points e \<noteq> []" using assms(2) by auto
  have l: "points e ! (length (points e) - Suc 0) = last (points e)"
    using ne by (simp add: last_conv_nth)
  have t: "(transform \<or> 1 \<le> length (transformations e))"
    using assms(3) by (cases "transformations e") auto
  have s: "smooth (length (points e)) (e\<lparr>points := points e @ [(x, y)]\<rparr>)
       = Some (e\<lparr>points := (points e @ [(x, y)])
                   [length (points e) - 1 :=
                      ((fst (points e ! (length (points e) - 2)) + x) / Fin 2,
                       (snd (points e ! (length (points e) - 2)) + y) / Fin 2)]\<rparr>)"
    using assms(2) by (simp add: smooth_def arraySet_def nth_append)
  have u: "updateDrawing x y transform e
             = smooth (length (points e)) (e\<lparr>points := points e @ [(x, y)]\<rparr>)"
    using assms(1,4) ne t l
    by (auto simp add: updateDrawing_def Let_def)
  show ?thesis using s u by simp
qed

theorem updateDrawing_smooth_witness:
  "updateDrawing (Fin 1) (Fin 1) True (startDrawing (Fin 0) (Fin 0) (sampleElement NONE))
     = Some ((sampleElement NONE)\<lparr>points := [pt (0, 0), pt (1, 1)]\<rparr>)
   \<and> shape ((sampleElement NONE)\<lparr>points := [pt (0, 0), pt (1, 1)]\<rparr>) = NONE
   \<and> updateDrawing (Fin 2) (Fin 0) True ((sampleElement NONE)\<lparr>points := [pt (0, 0), pt (1, 1)]\<rparr>)
     = Some ((sampleElement NONE)\<lparr>points := [pt (0, 0), pt (1, 0), pt (2, 0)]\<rparr>)"
proof -
  let ?e = "(sampleElement NONE)\<lparr>points := [pt (0, 0), pt (1, 1)]\<rparr>"
  have first: "updateDrawing (Fin 1) (Fin 1) True (startDrawing (Fin 0) (Fin 0) (sampleElement NONE))
                 = Some ?e"
    by (simp add: updateDrawing_def startDrawing_def sampleElement_def init_def Let_def
        js_eq_def smooth_def pt_def)
  have h1: "shape ?e = NONE" by (simp add: sampleElement_def init_def)
  have h2: "2 \<le> length (points ?e)" by simp
  have h3: "True \<or> transformations ?e \<noteq> []" by simp
  have h4: "\<not> (js_eq (Fin 2) (fst (last (points ?e))) \<and> js_eq (Fin 0) (snd (last (points ?e))))"
    by (simp add: js_eq_def pt_def)
  show ?thesis
    using first h1 updateDrawing_smooth [OF h1 h2 h3 h4] by (simp add: pt_def)
qed

lemma getCentroid_Some: "ps \<noteq> [] \<Longrightarrow> getCentroid ps \<noteq> None"
  by (cases ps)
     (auto simp: getCentroid_def getNaiveCenter_def Let_def split: prod.splits)

lemma getOriginalCenter_polygon:
  assumes "shape e = RECTANGLE \<or> shape e = POLYGON \<or> shape e = POLYLINE"
    and "points e \<noteq> []"
  shows "\<exists>c. getOriginalCenter e = Some (c, e\<lparr>originalCenter := Some c\<rparr>)"
proof -
  have sh: "shape e \<noteq> ELLIPSE" "shape e \<noteq> LINE" "shape e \<noteq> TEXT"
    using assms(1) by auto
  have "getOriginalCenter e \<noteq> None"
  proof (cases "originalCenter e")
    case (Some c)
    then show ?thesis by (simp add: getOriginalCenter_def)
  next
    case None
    show ?thesis
    proof (cases "3 \<le> length (points e)")
      case True
      obtain r where "getCentroid (points e) = Some r"
        using getCentroid_Some [OF assms(2)] by auto
      then show ?thesis
        using None sh True by (simp add: getOriginalCenter_def Let_def split: prod.splits)
    next
      case False
      obtain p ps where "points e = p # ps" using assms(2) by (cases "points e") auto
      then have "getNaiveCenter (points e) \<noteq> None"
        by (simp add: getNaiveCenter_def Let_def)
      then obtain r where "getNaiveCenter (points e) = Some r" by auto
      then show ?thesis
        using None sh False by (simp add: getOriginalCenter_def Let_def)
    qed
  qed
  then obtain c e0 where g: "getOriginalCenter e = Some (c, e0)" by auto
  then show ?thesis using getOriginalCenter_frame [OF g] by auto
qed

lemma updateDrawing_polygon:
  assumes "shape e = RECTANGLE \<or> shape e = POLYGON \<or> shape e = POLYLINE"
    and "transformations e \<noteq> []" and "points e \<noteq> []"
    and c: "getOriginalCenter e = Some (c, e\<lparr>originalCenter := Some c\<rparr>)"
  shows "updateDrawing x y transform e =
             (if js_eq x (fst (last (points e))) \<and> js_eq y (snd (last (points e))) then Some e
              else if length (points e) < 2 then Some e
              else Some (e\<lparr>originalCenter := Some c,
                    transformations := (transformations e)
                      [0 := (newTransformation ROTATION)
                         \<lparr>angle := Some (getAngle (fst c) (snd c) (fst (last (points e)))
                                           (snd (last (points e))) x y)\<rparr>]\<rparr>))"
proof -
  have t: "(transform \<or> 1 \<le> length (transformations e)) = True"
    using assms(2) by (cases "transformations e") auto
  have sh: "shape e \<noteq> NONE"
    and poly: "(shape e = RECTANGLE \<or> shape e = POLYGON \<or> shape e = POLYLINE) = True"
    using assms(1) by auto
  have l: "points e ! (length (points e) - 1) = last (points e)"
    using assms(3) by (simp add: last_conv_nth)
  have len: "(length (points e) = 0) = False" and ts: "0 < length (transformations e)"
    using assms(2,3) by simp_all
  have sh': "(shape e = NONE) = False" using sh by simp
  have l': "points e ! (length (points e) - Suc 0) = last (points e)"
    using l by simp
  show ?thesis
    unfolding updateDrawing_def Let_def t poly l len sh' if_False if_True simp_thms c
    using ts by (simp add: arraySet_def l')
qed

lemma getAngle_quarter:
  "getAngle (Fin 0) (Fin 0) (Fin 1) (Fin 1) (Fin (- 1)) (Fin 1) = Fin (pi / 2)"
  by (simp add: getAngle_def Let_def minus_number_def Math_min_def Math_max_def js_eq_def)

text \<open>
  C4, as amended. On a Rectangle, Polygon or Polyline that has a transformation and a point,
  \<^verbatim>\<open>updateDrawing\<close> returns and leaves the points alone. With fewer than two points, or
  with the pointer on the last point, it changes nothing at all; otherwise it fills the cache
  of the original center and puts, in place of transformation 0, a Rotation by the angle about
  that center from the last point to the pointer.
\<close>

theorem updateDrawing_keeps_points:
  assumes "shape e = RECTANGLE \<or> shape e = POLYGON \<or> shape e = POLYLINE"
    and "transformations e \<noteq> []" and "points e \<noteq> []"
  shows "\<exists>e'. updateDrawing x y transform e = Some e' \<and> points e' = points e
           \<and> (if length (points e) < 2
                  \<or> js_eq x (fst (last (points e))) \<and> js_eq y (snd (last (points e)))
               then e' = e
               else \<exists>c. getOriginalCenter e = Some (c, e\<lparr>originalCenter := Some c\<rparr>)
                      \<and> e' = e\<lparr>originalCenter := Some c,
                                transformations := (transformations e)
                                  [0 := (newTransformation ROTATION)
                                     \<lparr>angle := Some (getAngle (fst c) (snd c)
                                                       (fst (last (points e)))
                                                       (snd (last (points e))) x y)\<rparr>]\<rparr>)"
proof -
  obtain c where c: "getOriginalCenter e = Some (c, e\<lparr>originalCenter := Some c\<rparr>)"
    using getOriginalCenter_polygon [OF assms(1,3)] by blast
  note u = updateDrawing_polygon [OF assms c, of x y transform]
  let ?rot = "e\<lparr>originalCenter := Some c,
                transformations := (transformations e)
                  [0 := (newTransformation ROTATION)
                     \<lparr>angle := Some (getAngle (fst c) (snd c) (fst (last (points e)))
                                       (snd (last (points e))) x y)\<rparr>]\<rparr>"
  show ?thesis
  proof (cases "length (points e) < 2
                  \<or> js_eq x (fst (last (points e))) \<and> js_eq y (snd (last (points e)))")
    case True
    then have "updateDrawing x y transform e = Some e" unfolding u by auto
    then show ?thesis using True by simp
  next
    case False
    then have r: "updateDrawing x y transform e = Some ?rot" unfolding u by auto
    have p: "points ?rot = points e" by simp
    have "\<exists>c. getOriginalCenter e = Some (c, e\<lparr>originalCenter := Some c\<rparr>)
            \<and> ?rot = e\<lparr>originalCenter := Some c,
                        transformations := (transformations e)
                          [0 := (newTransformation ROTATION)
                             \<lparr>angle := Some (getAngle (fst c) (snd c) (fst (last (points e)))
                                               (snd (last (points e))) x y)\<rparr>]\<rparr>"
      by (intro exI [of _ c] conjI c refl)
    then show ?thesis
      using r p False by (intro exI [of _ ?rot]) (simp only: if_False simp_thms)
  qed
qed

theorem updateDrawing_keeps_points_witness:
  "shape rotatedSquare = RECTANGLE \<and> transformations rotatedSquare \<noteq> []
   \<and> points rotatedSquare \<noteq> []
   \<and> angle (hd (transformations rotatedSquare)) = Some (Fin 1)
   \<and> updateDrawing (Fin (- 1)) (Fin 1) False rotatedSquare
     = Some (rotatedSquare\<lparr>originalCenter := Some (Fin 0, Fin 0),
               transformations := [(newTransformation ROTATION)\<lparr>angle := Some (Fin (pi / 2))\<rparr>]\<rparr>)"
proof -
  have sh: "shape rotatedSquare = RECTANGLE"
    by (simp add: rotatedSquare_def squareElement_def sampleElement_def init_def)
  then have h1: "shape rotatedSquare = RECTANGLE \<or> shape rotatedSquare = POLYGON
            \<or> shape rotatedSquare = POLYLINE" by simp
  have ts: "transformations rotatedSquare = [(newTransformation ROTATION)\<lparr>angle := Some (Fin 1)\<rparr>]"
    by (simp add: rotatedSquare_def)
  have p: "points rotatedSquare = [(Fin (- 1), Fin (- 1)), (Fin 1, Fin 1)]"
    by (simp add: rotatedSquare_def squareElement_def pt_def)
  have h2: "transformations rotatedSquare \<noteq> []" by (simp add: ts)
  have h3: "points rotatedSquare \<noteq> []" by (simp add: p)
  have a: "angle (hd (transformations rotatedSquare)) = Some (Fin 1)" by (simp add: ts)
  have c: "getOriginalCenter rotatedSquare
             = Some ((Fin 0, Fin 0), rotatedSquare\<lparr>originalCenter := Some (Fin 0, Fin 0)\<rparr>)"
    by (simp add: rotatedSquare_def squareElement_def sampleElement_def init_def
        getOriginalCenter_def getNaiveCenter_def pt_def Let_def)
  have ne: "\<not> (length (points rotatedSquare) < 2
       \<or> js_eq (Fin (- 1)) (fst (last (points rotatedSquare)))
         \<and> js_eq (Fin 1) (snd (last (points rotatedSquare))))"
    by (simp add: p js_eq_def)
  obtain e' where u: "updateDrawing (Fin (- 1)) (Fin 1) False rotatedSquare = Some e'"
    and r: "\<exists>c. getOriginalCenter rotatedSquare = Some (c, rotatedSquare\<lparr>originalCenter := Some c\<rparr>)
              \<and> e' = rotatedSquare\<lparr>originalCenter := Some c,
                        transformations := (transformations rotatedSquare)
                          [0 := (newTransformation ROTATION)
                             \<lparr>angle := Some (getAngle (fst c) (snd c)
                                               (fst (last (points rotatedSquare)))
                                               (snd (last (points rotatedSquare)))
                                               (Fin (- 1)) (Fin 1))\<rparr>]\<rparr>"
    using updateDrawing_keeps_points [OF h1 h2 h3, of "Fin (- 1)" "Fin 1" False] ne
    by (simp only: if_False) blast
  obtain c' where c': "getOriginalCenter rotatedSquare
                         = Some (c', rotatedSquare\<lparr>originalCenter := Some c'\<rparr>)"
    and e': "e' = rotatedSquare\<lparr>originalCenter := Some c',
                        transformations := (transformations rotatedSquare)
                          [0 := (newTransformation ROTATION)
                             \<lparr>angle := Some (getAngle (fst c') (snd c')
                                               (fst (last (points rotatedSquare)))
                                               (snd (last (points rotatedSquare)))
                                               (Fin (- 1)) (Fin 1))\<rparr>]\<rparr>"
    using r by blast
  have "c' = (Fin 0, Fin 0)" using c c' by simp
  then have "e' = rotatedSquare\<lparr>originalCenter := Some (Fin 0, Fin 0),
               transformations := [(newTransformation ROTATION)\<lparr>angle := Some (Fin (pi / 2))\<rparr>]\<rparr>"
    unfolding e' by (simp add: p ts getAngle_quarter)
  then show ?thesis using u sh h2 h3 a by simp
qed

text \<open>
  C4 as the claim states it fails: on elements that have a transformation,
  \<^verbatim>\<open>startDrawing\<close> appends a point, \<^verbatim>\<open>stopDrawing\<close> drops the last of two points that are
  less than 3 apart, and \<^verbatim>\<open>updateDrawing\<close> on a freehand element appends and smooths.
\<close>

theorem builders_change_points:
  "transformations rotatedSquare \<noteq> []
   \<and> points (startDrawing (Fin 5) (Fin 5) rotatedSquare) \<noteq> points rotatedSquare
   \<and> points (stopDrawing (rotatedSquare\<lparr>points := [pt (0, 0), pt (1, 0)]\<rparr>))
       \<noteq> points (rotatedSquare\<lparr>points := [pt (0, 0), pt (1, 0)]\<rparr>)
   \<and> updateDrawing (Fin 5) (Fin 5) False (rotatedSquare\<lparr>shape := NONE\<rparr>)
       = Some (rotatedSquare\<lparr>shape := NONE, points := [pt (- 1, - 1), pt (2, 2), pt (5, 5)]\<rparr>)"
  apply (intro conjI)
     apply (simp add: rotatedSquare_def)
    apply (simp add: rotatedSquare_def startDrawing_def squareElement_def sampleElement_def
      init_def Let_def)
   apply (simp add: rotatedSquare_def stopDrawing_def squareElement_def sampleElement_def
      init_def Let_def getNearness_def MIN_DRAWING_SIZE_def pt_def minus_number_def)
  apply (simp add: rotatedSquare_def updateDrawing_def squareElement_def sampleElement_def
      init_def Let_def pt_def js_eq_def smooth_def arraySet_def)
  done

text \<open>
  With a transformation present, \<^verbatim>\<open>addPoint\<close> on a Polygon and \<^verbatim>\<open>updateDrawing\<close> on an
  Ellipse, a Line and a Text change the points as well.
\<close>

lemma other_builders_change_points:
  "points (the (addPoint (rotatedSquare\<lparr>shape := POLYGON, points := [pt (0, 0), pt (4, 0)]\<rparr>)))
     = [pt (0, 0), pt (4, 0), pt (4, 0)]"
  "points (the (updateDrawing (Fin 5) (Fin 5) False (rotatedSquare\<lparr>shape := ELLIPSE\<rparr>)))
     = [pt (- 1, - 1), pt (1, 1), pt (5, 5)]"
  "points (the (updateDrawing (Fin 5) (Fin 5) False (rotatedSquare\<lparr>shape := LINE\<rparr>)))
     = [pt (- 1, - 1), pt (5, 5)]"
  "points (the (updateDrawing (Fin 5) (Fin 5) False (rotatedSquare\<lparr>shape := TEXT\<rparr>)))
     = [pt (3, 3), pt (5, 5)]"
  by (simp_all add: addPoint_def updateDrawing_def rotatedSquare_def squareElement_def
      sampleElement_def init_def Let_def pt_def js_eq_def arraySet_def getNearness_def
      MIN_DRAWING_SIZE_def minus_number_def getOriginalCenter_def)

end
